theory Spec2Isabelle
  imports Main "HOL-Library.Word"
begin

section \<open>The wasmtime task driver: driver.go\<close>

text \<open>
  A shallow embedding of \<^verbatim>\<open>src/wasmtime/driver.go\<close>. Every method of
  \<^verbatim>\<open>WasmtimeDriverPlugin\<close> takes the plugin state and returns a result together with
  the new state. Calls into other packages (msgpack decoding, \<^verbatim>\<open>filepath.Walk\<close>, the
  wasmtime engine, gcache) are an environment: a record of functions giving what each call
  returns. The model is sequential: one method runs from its first statement to its
  return, goroutines are spawned (and recorded) but not run, and the \<^verbatim>\<open>context.Context\<close>
  arguments are left out.
\<close>

subsection \<open>Errors, panics, results\<close>

text \<open>
  One constructor for each error value the driver returns. The arguments are the values
  formatted into the message by \<^verbatim>\<open>fmt.Errorf\<close>, in the order of the format string.
\<close>

datatype error =
    ErrTaskNotFound
    \<comment> \<open>\<^verbatim>\<open>drivers.ErrTaskNotFound\<close>\<close>
  | ErrTaskAlreadyStarted string
    \<comment> \<open>\<^verbatim>\<open>task with ID %q already started\<close>\<close>
  | ErrDecodeDriverConfig string
    \<comment> \<open>\<^verbatim>\<open>failed to decode driver config: %v\<close>\<close>
  | ErrSetDriverState string
    \<comment> \<open>\<^verbatim>\<open>failed to set driver state: %v\<close>\<close>
  | ErrCannotDestroyRunning
    \<comment> \<open>\<^verbatim>\<open>cannot destroy running task\<close>\<close>
  | ErrSignalNotSupported
    \<comment> \<open>\<^verbatim>\<open>this driver does not support signal forwarding\<close>\<close>
  | ErrMsgPackDecode string
    \<comment> \<open>the error of \<^verbatim>\<open>base.MsgPackDecode\<close>, returned as it is\<close>
  | ErrCacheSize int
    \<comment> \<open>\<^verbatim>\<open>cache size must be > 0, but specified %v\<close>\<close>
  | ErrEntryTTL int
    \<comment> \<open>\<^verbatim>\<open>cache entry time-to-live must be > 0, but specified %v\<close>\<close>
  | ErrCacheType string
    \<comment> \<open>\<^verbatim>\<open>unexpected cache type specified, expected types: [lfu, arc, lru, simple], but specififed %s\<close>\<close>
  | ErrWalk string string
    \<comment> \<open>\<^verbatim>\<open>unable to get WASM modules for pre-cache from %s directory: %v\<close>\<close>
  | ErrPreCacheCount int nat
    \<comment> \<open>\<^verbatim>\<open>cache size (%v) must not be less then number of pre-cached modules (%v)\<close>\<close>
  | ErrLoadModule string string
    \<comment> \<open>\<^verbatim>\<open>unable to load WASM module (%v) from file: %v\<close>\<close>
  | ErrSerializeModule string string
    \<comment> \<open>\<^verbatim>\<open>unable to serialize WASM module (%v): %v\<close>\<close>
  | ErrCacheModule string
    \<comment> \<open>\<^verbatim>\<open>unable to cache WASM module (%v)\<close>\<close>

datatype panic =
    NilFileInfo
    \<comment> \<open>a method call on a nil \<^verbatim>\<open>fs.FileInfo\<close>\<close>
  | NilModulesCache
    \<comment> \<open>a method call on a nil \<^verbatim>\<open>gcache.Cache\<close>\<close>
  | CacheSizePanic
    \<comment> \<open>gcache's \<^verbatim>\<open>Build\<close>: \<^verbatim>\<open>gcache: Cache size <= 0\<close>\<close>

datatype 'a result = Ok 'a | Error error | Panic panic

type_synonym bytes = "8 word list"

subsection \<open>Configuration structs\<close>

record PreCacheConfig =
  PreCache_Enabled :: bool
  ModulesDir :: string

record ExpirationConfig =
  Expiration_Enabled :: bool
  EntryTTL :: int

record CacheConfig =
  Cache_Enabled :: bool
  Size :: int
  Type :: string
  PreCache :: PreCacheConfig
  Expiration :: ExpirationConfig

record Config =
  Cache :: CacheConfig

text \<open>The zero value of \<^verbatim>\<open>Config\<close>: what \<^verbatim>\<open>var config Config\<close> holds.\<close>

definition Config_zero :: Config where
  "Config_zero =
     \<lparr>Cache = \<lparr>Cache_Enabled = False, Size = 0, Type = [],
                PreCache = \<lparr>PreCache_Enabled = False, ModulesDir = []\<rparr>,
                Expiration = \<lparr>Expiration_Enabled = False, EntryTTL = 0\<rparr>\<rparr>\<rparr>"

record IOBufferConfig =
  IOBuffer_Enabled :: bool
  IOBuffer_Size :: "32 word"
  InputValue :: string
  IOBufFuncName :: string
  IOBuffer_Args :: "32 word list"

text \<open>The struct \<^verbatim>\<open>Main\<close> of the source; renamed, \<open>Main\<close> being a theory name.\<close>

record MainFunc =
  MainFuncName :: string
  Main_Args :: "32 word list"

record TaskConfig =
  ModulePath :: string
  IOBuffer :: IOBufferConfig
  MainF :: MainFunc

subsection \<open>Types of the Nomad plugin API\<close>

text \<open>
  \<^verbatim>\<open>drivers.TaskConfig\<close>: the task id and the encoded driver configuration
  (the other fields are not read by the driver).
\<close>

record drivers_TaskConfig =
  ID :: string
  rawDriverConfig :: bytes

text \<open>\<^verbatim>\<open>drivers.TaskState\<close>: the API has these three states.\<close>

datatype drivers_TaskState = TaskStateUnknown | TaskStateRunning | TaskStateExited

record ExitResult =
  ExitCode :: int
  Signal :: int
  OOMKilled :: bool
  Err :: "string option"

record drivers_TaskHandle =
  Version :: nat
  HandleConfig :: "drivers_TaskConfig option"
  DriverState :: bytes

definition taskHandleVersion :: nat where
  "taskHandleVersion = 1"

definition NewTaskHandle :: "nat \<Rightarrow> drivers_TaskHandle" where
  "NewTaskHandle version =
     \<lparr>Version = version, HandleConfig = None, DriverState = []\<rparr>"

record TaskStatus =
  Status_ID :: string
  Status_State :: drivers_TaskState
  Status_StartedAt :: int
  Status_ExitResult :: "ExitResult option"

record ClientDriverConfig =
  ClientMaxPort :: nat
  ClientMinPort :: nat

record AgentConfig =
  Driver :: "ClientDriverConfig option"

record base_Config =
  PluginConfig :: bytes
  AgentConf :: "AgentConfig option"

text \<open>\<^verbatim>\<open>TaskState\<close> of the driver: the state encoded into the handle given to Nomad.\<close>

record TaskState =
  State_TaskConfig :: drivers_TaskConfig
  State_StartedAt :: int

subsection \<open>The module cache (gcache)\<close>

record CacheBuilder =
  cb_size :: int
  cb_tp :: string
  cb_expiration :: "int option"

record Cache =
  Cache_size :: int
  Cache_tp :: string
  Cache_expiration :: "int option"
  Cache_items :: "(string \<times> bytes) list"

definition TYPE_SIMPLE :: string where "TYPE_SIMPLE = ''simple''"
definition TYPE_LRU :: string where "TYPE_LRU = ''lru''"
definition TYPE_LFU :: string where "TYPE_LFU = ''lfu''"
definition TYPE_ARC :: string where "TYPE_ARC = ''arc''"

definition gcache_New :: "int \<Rightarrow> CacheBuilder" where
  "gcache_New sz = \<lparr>cb_size = sz, cb_tp = TYPE_SIMPLE, cb_expiration = None\<rparr>"

text \<open>
  \<^verbatim>\<open>time.Second * time.Duration(n)\<close>: a \<^verbatim>\<open>Duration\<close> is an int64 of nanoseconds, and
  the product wraps.
\<close>

definition seconds :: "int \<Rightarrow> int" where
  "seconds n = (1000000000 * n + 2 ^ 63) mod 2 ^ 64 - 2 ^ 63"

text \<open>
  \<^verbatim>\<open>Build\<close> of gcache panics for a size that is not positive unless the type is simple,
  and gives an empty cache otherwise. (\<^verbatim>\<open>SetConfig\<close> calls \<^verbatim>\<open>configureCache\<close> with a
  positive size only.)
\<close>

definition Build :: "CacheBuilder \<Rightarrow> Cache result" where
  "Build cb =
     (if cb_size cb \<le> 0 \<and> cb_tp cb \<noteq> TYPE_SIMPLE then Panic CacheSizePanic
      else Ok \<lparr>Cache_size = cb_size cb, Cache_tp = cb_tp cb,
               Cache_expiration = cb_expiration cb, Cache_items = []\<rparr>)"

subsection \<open>Task handles and the task store\<close>

text \<open>
  The wasmtime store of a task: \<^verbatim>\<open>StartTask\<close> builds it on an engine with epoch
  interruption and sets its deadline; \<open>engineEpoch\<close> is the epoch counter of that engine.
\<close>

record Store =
  epochInterruption :: bool
  epochDeadline :: nat
  engineEpoch :: nat

text \<open>
  The fields \<^verbatim>\<open>StartTask\<close> and \<^verbatim>\<open>handleWait\<close> use. \<open>wasmModulesCache\<close> is a
  reference to the plugin's cache in the source and the cache's value here;
  \<open>completionCh\<close> says whether the channel has been signalled.
\<close>

record taskHandle =
  taskConfig :: drivers_TaskConfig
  procState :: drivers_TaskState
  startedAt :: int
  modulePath :: string
  ioBufferConf :: IOBufferConfig
  mainFunc :: MainFunc
  wasmModulesCache :: "Cache option"
  store :: Store
  completionCh :: bool
  exitResult :: "ExitResult option"

text \<open>
  Modelled from the spec: the methods \<^verbatim>\<open>IsRunning\<close>, \<^verbatim>\<open>stop\<close> and \<^verbatim>\<open>TaskStatus\<close> of
  \<^verbatim>\<open>taskHandle\<close> are defined outside \<^verbatim>\<open>driver.go\<close>. "if Running" (4.6) reads the state;
  \<^verbatim>\<open>stop()\<close> "requests that the execution Context's interruption mechanism fire" (4.4),
  "increment/trigger it from \<^verbatim>\<open>stop()\<close>" (9), and leaves the state of the task as it is;
  \<^verbatim>\<open>status()\<close> is a snapshot \<^verbatim>\<open>{state, startedAt, exitResult?}\<close> (4.4).
\<close>

definition IsRunning :: "taskHandle \<Rightarrow> bool" where
  "IsRunning h = (procState h = TaskStateRunning)"

definition stop :: "taskHandle \<Rightarrow> taskHandle" where
  "stop h = h\<lparr>store := (store h)\<lparr>engineEpoch := Suc (engineEpoch (store h))\<rparr>\<rparr>"

definition TaskStatus_of :: "taskHandle \<Rightarrow> TaskStatus" where
  "TaskStatus_of h =
     \<lparr>Status_ID = ID (taskConfig h), Status_State = procState h,
      Status_StartedAt = startedAt h, Status_ExitResult = exitResult h\<rparr>"

text \<open>
  Modelled from the spec: the type \<^verbatim>\<open>taskStore\<close> and its methods \<^verbatim>\<open>Get\<close>, \<^verbatim>\<open>Set\<close>
  and \<^verbatim>\<open>Delete\<close> are defined outside \<^verbatim>\<open>driver.go\<close>. The registry is a "mapping from task
  identifier to Task" with \<^verbatim>\<open>lookup(id) -> Task option\<close> and \<^verbatim>\<open>remove(id)\<close> (3, 4.5).
  \<^verbatim>\<open>Set\<close> returns nothing at its call in \<^verbatim>\<open>StartTask\<close>, so it stores the handle under
  the id; the duplicate check is the one \<^verbatim>\<open>StartTask\<close> makes.
\<close>

type_synonym taskStore = "string \<rightharpoonup> taskHandle"

definition newTaskStore :: taskStore where
  "newTaskStore = Map.empty"

definition Get :: "taskStore \<Rightarrow> string \<Rightarrow> taskHandle option" where
  "Get ts taskID = ts taskID"

definition Set :: "taskStore \<Rightarrow> string \<Rightarrow> taskHandle \<Rightarrow> taskStore" where
  "Set ts taskID h = ts(taskID \<mapsto> h)"

definition Delete :: "taskStore \<Rightarrow> string \<Rightarrow> taskStore" where
  "Delete ts taskID = ts(taskID := None)"

subsection \<open>The plugin\<close>

text \<open>
  What a method does beyond changing the plugin's fields, in program order: calls on a
  task handle and on the task store, goroutines spawned, log lines, and the calls of the
  warm-up loop.
\<close>

datatype event =
    EvTasksSet string drivers_TaskState
    \<comment> \<open>\<^verbatim>\<open>d.tasks.Set(id, h)\<close>, with the state of \<open>h\<close> at the call\<close>
  | EvTasksDelete string
  | EvStop string
    \<comment> \<open>\<^verbatim>\<open>handle.stop()\<close>\<close>
  | EvGoRun string
    \<comment> \<open>\<^verbatim>\<open>go h.run()\<close>\<close>
  | EvGoHandleWait string
  | EvGoHandleTaskStats
  | EvLogInfo string
  | EvLogTrace string
  | EvLogWarn
  | EvNewModuleFromFile string
  | EvSerialize string
  | EvCacheSet string

text \<open>
  The fields of \<^verbatim>\<open>WasmtimeDriverPlugin\<close> that the lifecycle methods read or write, and
  \<open>trace\<close>: the events so far (not a field of the source).
\<close>

record WasmtimeDriverPlugin =
  config :: Config
  nomadConfig :: "ClientDriverConfig option"
  tasks :: taskStore
  modulesCache :: "Cache option"
  trace :: "event list"

definition NewPlugin :: WasmtimeDriverPlugin where
  "NewPlugin =
     \<lparr>config = Config_zero, nomadConfig = None, tasks = newTaskStore,
      modulesCache = None, trace = []\<rparr>"

definition emit :: "event \<Rightarrow> WasmtimeDriverPlugin \<Rightarrow> WasmtimeDriverPlugin" where
  "emit ev d = d\<lparr>trace := trace d @ [ev]\<rparr>"

subsection \<open>Lifecycle methods that look a task up\<close>

definition WaitTask :: "WasmtimeDriverPlugin \<Rightarrow> string \<Rightarrow> unit result \<times> WasmtimeDriverPlugin" where
  "WaitTask d taskID =
     (case Get (tasks d) taskID of
        None \<Rightarrow> (Error ErrTaskNotFound, d)
      | Some handle \<Rightarrow> (Ok (), emit (EvGoHandleWait taskID) d))"

definition StopTask ::
  "WasmtimeDriverPlugin \<Rightarrow> string \<Rightarrow> int \<Rightarrow> string \<Rightarrow> unit result \<times> WasmtimeDriverPlugin" where
  "StopTask d taskID timeout signal =
     (case Get (tasks d) taskID of
        None \<Rightarrow> (Error ErrTaskNotFound, d)
      | Some handle \<Rightarrow>
          (Ok (), emit (EvStop taskID) (d\<lparr>tasks := (tasks d)(taskID \<mapsto> stop handle)\<rparr>)))"

definition DestroyTask ::
  "WasmtimeDriverPlugin \<Rightarrow> string \<Rightarrow> bool \<Rightarrow> unit result \<times> WasmtimeDriverPlugin" where
  "DestroyTask d taskID force =
     (case Get (tasks d) taskID of
        None \<Rightarrow> (Error ErrTaskNotFound, d)
      | Some handle \<Rightarrow>
          if IsRunning handle \<and> \<not> force then (Error ErrCannotDestroyRunning, d)
          else
            let d1 = (if IsRunning handle \<and> force
                      then emit (EvStop taskID) (d\<lparr>tasks := (tasks d)(taskID \<mapsto> stop handle)\<rparr>)
                      else d);
                d2 = emit (EvTasksDelete taskID) (d1\<lparr>tasks := Delete (tasks d1) taskID\<rparr>)
            in (Ok (), d2))"

definition InspectTask ::
  "WasmtimeDriverPlugin \<Rightarrow> string \<Rightarrow> TaskStatus result \<times> WasmtimeDriverPlugin" where
  "InspectTask d taskID =
     (case Get (tasks d) taskID of
        None \<Rightarrow> (Error ErrTaskNotFound, d)
      | Some handle \<Rightarrow> (Ok (TaskStatus_of handle), d))"

definition TaskStats ::
  "WasmtimeDriverPlugin \<Rightarrow> string \<Rightarrow> int \<Rightarrow> unit result \<times> WasmtimeDriverPlugin" where
  "TaskStats d taskID interval =
     (case Get (tasks d) taskID of
        None \<Rightarrow> (Error ErrTaskNotFound, d)
      | Some _ \<Rightarrow> (Ok (), emit EvGoHandleTaskStats d))"

definition SignalTask ::
  "WasmtimeDriverPlugin \<Rightarrow> string \<Rightarrow> string \<Rightarrow> unit result \<times> WasmtimeDriverPlugin" where
  "SignalTask d taskID signal =
     (case Get (tasks d) taskID of
        None \<Rightarrow> (Error ErrTaskNotFound, d)
      | Some _ \<Rightarrow> (Error ErrSignalNotSupported, d))"

subsection \<open>StartTask\<close>

text \<open>\<^verbatim>\<open>wasmtime.Module\<close>: a compiled module, known by the bytes it was compiled from.\<close>

datatype Module = Module bytes

text \<open>\<^verbatim>\<open>fs.FileInfo\<close>, and what \<^verbatim>\<open>filepath.Walk\<close> hands to its function for one entry.\<close>

record FileInfo =
  Name :: string
  IsDir :: bool

record walk_entry =
  walk_path :: string
  walk_info :: "FileInfo option"
  walk_err :: "string option"

text \<open>
  The environment: what the calls into other packages return. A Go \<^verbatim>\<open>error\<close> of another
  package is its message (\<open>Inl\<close>). \<open>WalkEntries root\<close> is the sequence of entries
  \<^verbatim>\<open>filepath.Walk\<close> visits under \<open>root\<close> as long as its function returns nil; \<open>CacheSet\<close>
  is gcache's \<^verbatim>\<open>Set\<close>, with \<open>None\<close> for an error; \<open>Now\<close> is
  \<^verbatim>\<open>time.Now().Round(time.Millisecond)\<close>.
\<close>

record environment =
  MsgPackDecode :: "bytes \<Rightarrow> string + Config"
  DecodeDriverConfig :: "drivers_TaskConfig \<Rightarrow> string + TaskConfig"
  SetDriverState :: "TaskState \<Rightarrow> string + bytes"
  Now :: int
  WalkEntries :: "string \<Rightarrow> walk_entry list"
  NewModuleFromFile :: "string \<Rightarrow> string + Module"
  Serialize :: "Module \<Rightarrow> string + bytes"
  CacheSet :: "Cache \<Rightarrow> string \<Rightarrow> bytes \<Rightarrow> Cache option"

definition StartTask ::
  "environment \<Rightarrow> WasmtimeDriverPlugin \<Rightarrow> drivers_TaskConfig \<Rightarrow>
     drivers_TaskHandle result \<times> WasmtimeDriverPlugin" where
  "StartTask env d cfg =
     (case Get (tasks d) (ID cfg) of
        Some _ \<Rightarrow> (Error (ErrTaskAlreadyStarted (ID cfg)), d)
      | None \<Rightarrow>
          (case DecodeDriverConfig env cfg of
             Inl err \<Rightarrow> (Error (ErrDecodeDriverConfig err), d)
           | Inr driverConfig \<Rightarrow>
               let d1 = emit (EvLogInfo ''starting task'') d;
                   handle = (NewTaskHandle taskHandleVersion)\<lparr>HandleConfig := Some cfg\<rparr>;
                   store' = \<lparr>epochInterruption = True, epochDeadline = 1, engineEpoch = 0\<rparr>;
                   h = \<lparr>taskConfig = cfg,
                        procState = TaskStateRunning,
                        startedAt = Now env,
                        modulePath = ModulePath driverConfig,
                        ioBufferConf = IOBuffer driverConfig,
                        mainFunc = MainF driverConfig,
                        wasmModulesCache = modulesCache d1,
                        store = store',
                        completionCh = False,
                        exitResult = None\<rparr>;
                   driverState = \<lparr>State_TaskConfig = cfg, State_StartedAt = startedAt h\<rparr>
               in (case SetDriverState env driverState of
                     Inl err \<Rightarrow> (Error (ErrSetDriverState err), d1)
                   | Inr encoded \<Rightarrow>
                       let d2 = emit (EvTasksSet (ID cfg) (procState h))
                                  (d1\<lparr>tasks := Set (tasks d1) (ID cfg) h\<rparr>);
                           d3 = emit (EvGoRun (ID cfg)) d2
                       in (Ok (handle\<lparr>DriverState := encoded\<rparr>), d3))))"

subsection \<open>SetConfig and configureCache\<close>

text \<open>\<^verbatim>\<open>strings.HasSuffix\<close>.\<close>

definition HasSuffix :: "string \<Rightarrow> string \<Rightarrow> bool" where
  "HasSuffix s suffix =
     (length suffix \<le> length s \<and> drop (length s - length suffix) s = suffix)"

text \<open>
  The function literal given to \<^verbatim>\<open>filepath.Walk\<close>. It appends to the variable
  \<open>modulesPath\<close> of the enclosing function, here its first argument and, updated, the
  first component of what it returns; the second component is the error it returns.
  The first thing it does is call \<^verbatim>\<open>info.IsDir()\<close>, which panics on a nil \<open>info\<close>.
\<close>

definition visitor :: "string list \<Rightarrow> walk_entry \<Rightarrow> (string list \<times> string option) result" where
  "visitor modulesPath e =
     (case walk_info e of
        None \<Rightarrow> Panic NilFileInfo
      | Some info \<Rightarrow>
          if \<not> IsDir info \<and> HasSuffix (Name info) ''.wasm''
          then Ok (modulesPath @ [walk_path e], None)
          else Ok (modulesPath, None))"

text \<open>
  \<^verbatim>\<open>filepath.Walk\<close> of the Go library: it calls the function on each entry in turn and
  returns the first error the function returns, or nil after the last entry. (The
  sentinel errors \<^verbatim>\<open>SkipDir\<close> and \<^verbatim>\<open>SkipAll\<close> are left out.)
\<close>

fun Walk ::
  "walk_entry list \<Rightarrow> ('a \<Rightarrow> walk_entry \<Rightarrow> ('a \<times> string option) result) \<Rightarrow> 'a \<Rightarrow>
     ('a \<times> string option) result" where
  "Walk [] fn acc = Ok (acc, None)"
| "Walk (e # es) fn acc =
     (case fn acc e of
        Panic p \<Rightarrow> Panic p
      | Error x \<Rightarrow> Error x
      | Ok (acc', Some err) \<Rightarrow> Ok (acc', Some err)
      | Ok (acc', None) \<Rightarrow> Walk es fn acc')"

text \<open>The loop \<^verbatim>\<open>for _, modulePath := range modulesPath\<close> of \<^verbatim>\<open>configureCache\<close>.\<close>

fun preCacheModules ::
  "environment \<Rightarrow> string list \<Rightarrow> WasmtimeDriverPlugin \<Rightarrow> unit result \<times> WasmtimeDriverPlugin" where
  "preCacheModules env [] d = (Ok (), d)"
| "preCacheModules env (path # rest) d =
     (let d1 = emit (EvNewModuleFromFile path) d in
      (case NewModuleFromFile env path of
         Inl err \<Rightarrow> (Error (ErrLoadModule path err), d1)
       | Inr wasmModule \<Rightarrow>
           (let d2 = emit (EvSerialize path) d1 in
            (case Serialize env wasmModule of
               Inl err \<Rightarrow> (Error (ErrSerializeModule path err), d2)
             | Inr serModule \<Rightarrow>
                 (let d3 = emit (EvCacheSet path) d2 in
                  (case modulesCache d3 of
                     None \<Rightarrow> (Panic NilModulesCache, d3)
                   | Some c \<Rightarrow>
                       (case CacheSet env c path serModule of
                          None \<Rightarrow> (Error (ErrCacheModule path), d3)
                        | Some c' \<Rightarrow>
                            preCacheModules env rest
                              (emit (EvLogTrace path) (d3\<lparr>modulesCache := Some c'\<rparr>)))))))))"

text \<open>
  The block \<^verbatim>\<open>if cacheConf.PreCache.Enabled { ... }\<close> of \<^verbatim>\<open>configureCache\<close>, which
  runs on the plugin once \<open>modulesCache\<close> is set.
\<close>

definition warmUp ::
  "environment \<Rightarrow> CacheConfig \<Rightarrow> WasmtimeDriverPlugin \<Rightarrow> unit result \<times> WasmtimeDriverPlugin" where
  "warmUp env cacheConf d1 =
     (if PreCache_Enabled (PreCache cacheConf) then
        (case Walk (WalkEntries env (ModulesDir (PreCache cacheConf))) visitor [] of
           Panic p \<Rightarrow> (Panic p, d1)
         | Error x \<Rightarrow> (Error x, d1)
         | Ok (modulesPath, Some err) \<Rightarrow>
             (Error (ErrWalk (ModulesDir (PreCache cacheConf)) err), d1)
         | Ok (modulesPath, None) \<Rightarrow>
             if int (length modulesPath) > Size cacheConf
             then (Error (ErrPreCacheCount (Size cacheConf) (length modulesPath)), d1)
             else
               (case preCacheModules env modulesPath d1 of
                  (Ok u, d2) \<Rightarrow>
                    (Ok (),
                     if Expiration_Enabled (Expiration cacheConf)
                     then emit EvLogWarn d2 else d2)
                | (r, d2) \<Rightarrow> (r, d2)))
      else (Ok (), d1))"

definition configureCache ::
  "environment \<Rightarrow> WasmtimeDriverPlugin \<Rightarrow> unit result \<times> WasmtimeDriverPlugin" where
  "configureCache env d =
     (let cacheConf = Cache (config d);
          cacheBuilder0 = gcache_New (Size cacheConf);
          cacheBuilder =
            (if Expiration_Enabled (Expiration cacheConf)
             then cacheBuilder0\<lparr>cb_expiration := Some (seconds (EntryTTL (Expiration cacheConf)))\<rparr>
             else cacheBuilder0)
      in
      case (if Type cacheConf = TYPE_LFU then Some (cacheBuilder\<lparr>cb_tp := TYPE_LFU\<rparr>)
            else if Type cacheConf = TYPE_ARC then Some (cacheBuilder\<lparr>cb_tp := TYPE_ARC\<rparr>)
            else if Type cacheConf = TYPE_LRU then Some (cacheBuilder\<lparr>cb_tp := TYPE_LRU\<rparr>)
            else if Type cacheConf = TYPE_SIMPLE then Some (cacheBuilder\<lparr>cb_tp := TYPE_SIMPLE\<rparr>)
            else None) of
        None \<Rightarrow> (Error (ErrCacheType (Type cacheConf)), d)
      | Some cb \<Rightarrow>
          (case Build cb of
             Panic p \<Rightarrow> (Panic p, d)
           | Error x \<Rightarrow> (Error x, d)
           | Ok cache \<Rightarrow> warmUp env cacheConf (d\<lparr>modulesCache := Some cache\<rparr>)))"

text \<open>The first statements of \<^verbatim>\<open>SetConfig\<close>: the configuration it goes on with.\<close>

definition decodedConfig :: "environment \<Rightarrow> base_Config \<Rightarrow> string + Config" where
  "decodedConfig env cfg =
     (if length (PluginConfig cfg) \<noteq> 0 then MsgPackDecode env (PluginConfig cfg)
      else Inr Config_zero)"

definition SetConfig ::
  "environment \<Rightarrow> WasmtimeDriverPlugin \<Rightarrow> base_Config \<Rightarrow> unit result \<times> WasmtimeDriverPlugin" where
  "SetConfig env d cfg =
     (case decodedConfig env cfg of
        Inl err \<Rightarrow> (Error (ErrMsgPackDecode err), d)
      | Inr config' \<Rightarrow>
          let d1 = d\<lparr>config := config'\<rparr>;
              cacheConf = Cache (config d1)
          in
          if Size cacheConf \<le> 0 then (Error (ErrCacheSize (Size cacheConf)), d1)
          else if Expiration_Enabled (Expiration cacheConf) \<and> EntryTTL (Expiration cacheConf) \<le> 0
          then (Error (ErrEntryTTL (EntryTTL (Expiration cacheConf))), d1)
          else
            let d2 = (case AgentConf cfg of
                        None \<Rightarrow> d1
                      | Some agent \<Rightarrow> d1\<lparr>nomadConfig := Driver agent\<rparr>)
            in
            if Cache_Enabled cacheConf then configureCache env d2
            else (Ok (), d2))"

subsection \<open>Notions used in the statements\<close>

text \<open>The cache types that the \<^verbatim>\<open>switch\<close> of \<^verbatim>\<open>configureCache\<close> accepts.\<close>

definition validType :: "string \<Rightarrow> bool" where
  "validType t = (t = TYPE_LFU \<or> t = TYPE_ARC \<or> t = TYPE_LRU \<or> t = TYPE_SIMPLE)"

text \<open>
  The cache that \<^verbatim>\<open>configureCache\<close> builds and stores in \<open>modulesCache\<close> for a
  configuration with one of these types (lemma \<open>configureCache_built\<close>).
\<close>

definition builtCache :: "CacheConfig \<Rightarrow> Cache" where
  "builtCache cc =
     \<lparr>Cache_size = Size cc, Cache_tp = Type cc,
      Cache_expiration =
        (if Expiration_Enabled (Expiration cc) then Some (seconds (EntryTTL (Expiration cc))) else None),
      Cache_items = []\<rparr>"

text \<open>The module path that a warm-up error names.\<close>

fun error_path :: "error \<Rightarrow> string option" where
  "error_path (ErrLoadModule path err) = Some path"
| "error_path (ErrSerializeModule path err) = Some path"
| "error_path (ErrCacheModule path) = Some path"
| "error_path e = None"

text \<open>
  The modules that the warm-up loop has started on: its first call for a module is
  \<^verbatim>\<open>NewModuleFromFile\<close>.
\<close>

fun loadAttempts :: "event list \<Rightarrow> string list" where
  "loadAttempts [] = []"
| "loadAttempts (EvNewModuleFromFile path # evs) = path # loadAttempts evs"
| "loadAttempts (ev # evs) = loadAttempts evs"

text \<open>
  The cache after every module of a list has been loaded, serialised and put into it, in
  that order, starting from the cache \<open>c\<close>; \<open>None\<close> if one of the three calls fails for
  a module of the list. So \<open>cachedAll env [p] c = None\<close> says that loading, serialising or
  caching \<open>p\<close> fails.
\<close>

fun cachedAll :: "environment \<Rightarrow> string list \<Rightarrow> Cache \<Rightarrow> Cache option" where
  "cachedAll env [] c = Some c"
| "cachedAll env (path # rest) c =
     (case NewModuleFromFile env path of
        Inl err \<Rightarrow> None
      | Inr wasmModule \<Rightarrow>
          (case Serialize env wasmModule of
             Inl err \<Rightarrow> None
           | Inr serModule \<Rightarrow>
               (case CacheSet env c path serModule of
                  None \<Rightarrow> None
                | Some c' \<Rightarrow> cachedAll env rest c')))"

text \<open>
  Modelled from the spec: the method \<^verbatim>\<open>run\<close> of \<^verbatim>\<open>taskHandle\<close>, which makes the engine
  call and ends the task, is defined outside \<^verbatim>\<open>driver.go\<close>. A task goes "Running\<rightarrow>Exited
  once the call protocol returns", or "once the concurrency unit observes the abort" after
  a \<^verbatim>\<open>stop()\<close>; on an Exited task either is a no-op (4.4). \<open>exits\<close> counts the
  transitions from Running to Exited along a sequence of such events.
\<close>

datatype lifecycle_event = CallReturned | AbortObserved

fun lifecycle_step :: "drivers_TaskState \<Rightarrow> lifecycle_event \<Rightarrow> drivers_TaskState" where
  "lifecycle_step TaskStateRunning ev = TaskStateExited"
| "lifecycle_step s ev = s"

fun exits :: "drivers_TaskState \<Rightarrow> lifecycle_event list \<Rightarrow> nat" where
  "exits s [] = 0"
| "exits s (ev # evs) =
     (if s = TaskStateRunning \<and> lifecycle_step s ev = TaskStateExited then 1 else 0)
       + exits (lifecycle_step s ev) evs"

subsection \<open>Concrete inputs\<close>

definition ex_handle :: "drivers_TaskState \<Rightarrow> taskHandle" where
  "ex_handle st =
     \<lparr>taskConfig = \<lparr>ID = ''t1'', rawDriverConfig = [1]\<rparr>,
      procState = st, startedAt = 1000, modulePath = ''/m/a.wasm'',
      ioBufferConf = \<lparr>IOBuffer_Enabled = False, IOBuffer_Size = 4096, InputValue = [],
                      IOBufFuncName = ''alloc'', IOBuffer_Args = []\<rparr>,
      mainFunc = \<lparr>MainFuncName = ''handle_buffer'', Main_Args = []\<rparr>,
      wasmModulesCache = None,
      store = \<lparr>epochInterruption = True, epochDeadline = 1, engineEpoch = 0\<rparr>,
      completionCh = False, exitResult = None\<rparr>"

text \<open>A plugin with one task, \<open>t1\<close>, in the given state.\<close>

definition ex_plugin :: "drivers_TaskState \<Rightarrow> WasmtimeDriverPlugin" where
  "ex_plugin st = NewPlugin\<lparr>tasks := Set newTaskStore ''t1'' (ex_handle st)\<rparr>"

definition ex_TaskConfig :: TaskConfig where
  "ex_TaskConfig =
     \<lparr>ModulePath = ''/m/a.wasm'',
      IOBuffer = \<lparr>IOBuffer_Enabled = False, IOBuffer_Size = 4096, InputValue = [],
                  IOBufFuncName = ''alloc'', IOBuffer_Args = []\<rparr>,
      MainF = \<lparr>MainFuncName = ''handle_buffer'', Main_Args = []\<rparr>\<rparr>"

text \<open>A directory \<open>/m\<close> with three modules and a text file.\<close>

definition ex_entries :: "walk_entry list" where
  "ex_entries =
     [\<lparr>walk_path = ''/m'', walk_info = Some \<lparr>Name = ''m'', IsDir = True\<rparr>, walk_err = None\<rparr>,
      \<lparr>walk_path = ''/m/a.wasm'', walk_info = Some \<lparr>Name = ''a.wasm'', IsDir = False\<rparr>,
       walk_err = None\<rparr>,
      \<lparr>walk_path = ''/m/b.wasm'', walk_info = Some \<lparr>Name = ''b.wasm'', IsDir = False\<rparr>,
       walk_err = None\<rparr>,
      \<lparr>walk_path = ''/m/notes.txt'', walk_info = Some \<lparr>Name = ''notes.txt'', IsDir = False\<rparr>,
       walk_err = None\<rparr>,
      \<lparr>walk_path = ''/m/c.wasm'', walk_info = Some \<lparr>Name = ''c.wasm'', IsDir = False\<rparr>,
       walk_err = None\<rparr>]"

text \<open>
  An environment in which the plugin configuration decodes to \<open>c\<close>, a task's driver
  configuration decodes unless it is empty, \<open>/m\<close> is the only directory that exists, and
  \<open>/m/b.wasm\<close> is not a valid module.
\<close>

definition ex_env :: "Config \<Rightarrow> environment" where
  "ex_env c =
     \<lparr>MsgPackDecode = (\<lambda>b. Inr c),
      DecodeDriverConfig =
        (\<lambda>cfg. if rawDriverConfig cfg = [] then Inl ''EOF'' else Inr ex_TaskConfig),
      SetDriverState = (\<lambda>s. Inr [1]),
      Now = 1000,
      WalkEntries =
        (\<lambda>root. if root = ''/m'' then ex_entries
                else [\<lparr>walk_path = root, walk_info = None,
                       walk_err = Some ''no such file or directory''\<rparr>]),
      NewModuleFromFile =
        (\<lambda>p. if p = ''/m/b.wasm'' then Inl ''invalid module'' else Inr (Module [0])),
      Serialize = (\<lambda>m. Inr [0]),
      CacheSet = (\<lambda>c k v. Some (c\<lparr>Cache_items := (k, v) # Cache_items c\<rparr>))\<rparr>"

definition ex_env_noenc :: environment where
  "ex_env_noenc = (ex_env Config_zero)\<lparr>SetDriverState := (\<lambda>s. Inl ''encode'')\<rparr>"

text \<open>
  Environments in which every module loads: in the first, \<open>/m/b.wasm\<close> does not
  serialise; in the second, the cache refuses \<open>/m/b.wasm\<close>.
\<close>

definition ex_env_noser :: environment where
  "ex_env_noser =
     (ex_env Config_zero)
       \<lparr>NewModuleFromFile :=
          (\<lambda>p. if p = ''/m/b.wasm'' then Inr (Module [1]) else Inr (Module [0])),
        Serialize := (\<lambda>m. if m = Module [1] then Inl ''not serializable'' else Inr [0])\<rparr>"

definition ex_env_noset :: environment where
  "ex_env_noset =
     (ex_env Config_zero)
       \<lparr>NewModuleFromFile := (\<lambda>p. Inr (Module [0])),
        CacheSet :=
          (\<lambda>c k v. if k = ''/m/b.wasm'' then None
                   else Some (c\<lparr>Cache_items := (k, v) # Cache_items c\<rparr>))\<rparr>"

definition ex_task :: "bytes \<Rightarrow> drivers_TaskConfig" where
  "ex_task raw = \<lparr>ID = ''t1'', rawDriverConfig = raw\<rparr>"

text \<open>
  A plugin configuration with the cache enabled, of the given size and type, with
  pre-caching from the directory \<open>dir\<close> if \<open>pre\<close>, and entries that expire after \<open>ttl\<close>
  seconds if \<open>expire\<close>.
\<close>

definition ex_config :: "int \<Rightarrow> string \<Rightarrow> bool \<Rightarrow> string \<Rightarrow> bool \<Rightarrow> int \<Rightarrow> Config" where
  "ex_config sz tp pre dir expire ttl =
     \<lparr>Cache = \<lparr>Cache_Enabled = True, Size = sz, Type = tp,
                PreCache = \<lparr>PreCache_Enabled = pre, ModulesDir = dir\<rparr>,
                Expiration = \<lparr>Expiration_Enabled = expire, EntryTTL = ttl\<rparr>\<rparr>\<rparr>"

definition ex_base_Config :: base_Config where
  "ex_base_Config = \<lparr>PluginConfig = [1], AgentConf = None\<rparr>"

section \<open>Helper lemmas\<close>

lemma TYPE_distinct:
  "TYPE_LFU \<noteq> TYPE_ARC" "TYPE_LFU \<noteq> TYPE_LRU" "TYPE_LFU \<noteq> TYPE_SIMPLE"
  "TYPE_ARC \<noteq> TYPE_LRU" "TYPE_ARC \<noteq> TYPE_SIMPLE" "TYPE_LRU \<noteq> TYPE_SIMPLE"
  "TYPE_ARC \<noteq> TYPE_LFU" "TYPE_LRU \<noteq> TYPE_LFU" "TYPE_SIMPLE \<noteq> TYPE_LFU"
  "TYPE_LRU \<noteq> TYPE_ARC" "TYPE_SIMPLE \<noteq> TYPE_ARC" "TYPE_SIMPLE \<noteq> TYPE_LRU"
  by (simp_all add: TYPE_LFU_def TYPE_ARC_def TYPE_LRU_def TYPE_SIMPLE_def)

lemma visitor_cases:
  "visitor acc e = Panic NilFileInfo \<or> (\<exists>acc'. visitor acc e = Ok (acc', None))"
  by (simp add: visitor_def split: option.splits)

lemma Walk_visitor_cases:
  "Walk es visitor acc = Panic NilFileInfo \<or> (\<exists>ms. Walk es visitor acc = Ok (ms, None))"
proof (induction es arbitrary: acc)
  case Nil
  show ?case by simp
next
  case (Cons e es)
  from visitor_cases [of acc e] show ?case
  proof
    assume "visitor acc e = Panic NilFileInfo"
    then show ?thesis by simp
  next
    assume "\<exists>acc'. visitor acc e = Ok (acc', None)"
    then obtain acc' where "visitor acc e = Ok (acc', None)" ..
    with Cons.IH [of acc'] show ?thesis by simp
  qed
qed

lemma preCacheModules_config: "config (snd (preCacheModules env ms d)) = config d"
  by (induction env ms d rule: preCacheModules.induct)
     (simp_all add: emit_def Let_def split: sum.splits option.splits)

lemma preCacheModules_append:
  "preCacheModules env pre d = (Ok u, d') \<Longrightarrow>
     preCacheModules env (pre @ post) d = preCacheModules env post d'"
  by (induction env pre d rule: preCacheModules.induct)
     (auto simp add: Let_def split: sum.splits option.splits)

lemma preCacheModules_head_fails:
  "fst (preCacheModules env [p] d) = Error e \<Longrightarrow>
     preCacheModules env (p # post) d = preCacheModules env [p] d \<and> error_path e = Some p"
  by (auto simp add: Let_def split: sum.splits option.splits)

lemma loadAttempts_append: "loadAttempts (xs @ ys) = loadAttempts xs @ loadAttempts ys"
  by (induction xs rule: loadAttempts.induct) simp_all

lemma preCacheModules_loadAttempts_single:
  "fst (preCacheModules env [p] d) = Error e \<Longrightarrow>
     loadAttempts (trace (snd (preCacheModules env [p] d))) = loadAttempts (trace d) @ [p]"
  by (auto simp add: emit_def Let_def loadAttempts_append split: sum.splits option.splits)

lemma preCacheModules_not_ErrWalk:
  "fst (preCacheModules env ms d) \<noteq> Error (ErrWalk dir msg)"
  by (induction env ms d rule: preCacheModules.induct)
     (simp_all add: Let_def split: sum.splits option.splits)

lemma warmUp_config: "config (snd (warmUp env cc d)) = config d"
proof -
  have pc: "preCacheModules env ms d = (r, d2) \<Longrightarrow> config d2 = config d" for ms r d2
    using preCacheModules_config [of env ms d] by simp
  from Walk_visitor_cases [of "WalkEntries env (ModulesDir (PreCache cc))" "[]"] show ?thesis
  proof
    assume "Walk (WalkEntries env (ModulesDir (PreCache cc))) visitor [] = Panic NilFileInfo"
    then show ?thesis by (simp add: warmUp_def)
  next
    assume "\<exists>ms. Walk (WalkEntries env (ModulesDir (PreCache cc))) visitor [] = Ok (ms, None)"
    then obtain ms where "Walk (WalkEntries env (ModulesDir (PreCache cc))) visitor [] = Ok (ms, None)" ..
    then show ?thesis
      by (auto simp add: warmUp_def emit_def split: prod.splits result.splits dest: pc)
  qed
qed

lemma warmUp_not_ErrWalk: "fst (warmUp env cc d) \<noteq> Error (ErrWalk dir msg)"
proof -
  have pc: "preCacheModules env ms d = (r, d2) \<Longrightarrow> r \<noteq> Error (ErrWalk dir msg)" for ms r d2
    using preCacheModules_not_ErrWalk [of env ms d dir msg] by auto
  from Walk_visitor_cases [of "WalkEntries env (ModulesDir (PreCache cc))" "[]"] show ?thesis
  proof
    assume "Walk (WalkEntries env (ModulesDir (PreCache cc))) visitor [] = Panic NilFileInfo"
    then show ?thesis by (simp add: warmUp_def)
  next
    assume "\<exists>ms. Walk (WalkEntries env (ModulesDir (PreCache cc))) visitor [] = Ok (ms, None)"
    then obtain ms where "Walk (WalkEntries env (ModulesDir (PreCache cc))) visitor [] = Ok (ms, None)" ..
    then show ?thesis
      by (auto simp add: warmUp_def split: prod.splits result.splits dest: pc)
  qed
qed

lemma configureCache_invalid:
  "\<not> validType (Type (Cache (config d))) \<Longrightarrow>
     configureCache env d = (Error (ErrCacheType (Type (Cache (config d)))), d)"
  by (simp add: configureCache_def validType_def Let_def)

lemma configureCache_build_panics:
  "validType (Type (Cache (config d))) \<Longrightarrow> Size (Cache (config d)) \<le> 0 \<Longrightarrow>
   Type (Cache (config d)) \<noteq> TYPE_SIMPLE \<Longrightarrow>
     configureCache env d = (Panic CacheSizePanic, d)"
  by (auto simp add: configureCache_def validType_def Let_def Build_def gcache_New_def TYPE_distinct)

lemma configureCache_built:
  assumes "validType (Type (Cache (config d)))"
    and "0 < Size (Cache (config d)) \<or> Type (Cache (config d)) = TYPE_SIMPLE"
  shows "configureCache env d =
     warmUp env (Cache (config d)) (d\<lparr>modulesCache := Some (builtCache (Cache (config d)))\<rparr>)"
proof -
  let ?cc = "Cache (config d)"
  have build: "Build ((if Expiration_Enabled (Expiration ?cc)
             then (gcache_New (Size ?cc))\<lparr>cb_expiration := Some (seconds (EntryTTL (Expiration ?cc)))\<rparr>
             else gcache_New (Size ?cc))\<lparr>cb_tp := Type ?cc\<rparr>) = Ok (builtCache ?cc)"
    using assms(2) by (auto simp add: Build_def gcache_New_def builtCache_def)
  from assms(1) consider "Type ?cc = TYPE_LFU" | "Type ?cc = TYPE_ARC" | "Type ?cc = TYPE_LRU"
    | "Type ?cc = TYPE_SIMPLE"
    unfolding validType_def by blast
  then show ?thesis
  proof cases
    case 1
    with build show ?thesis
      unfolding configureCache_def Let_def by (simp add: TYPE_distinct)
  next
    case 2
    with build show ?thesis
      unfolding configureCache_def Let_def by (simp add: TYPE_distinct)
  next
    case 3
    with build show ?thesis
      unfolding configureCache_def Let_def by (simp add: TYPE_distinct)
  next
    case 4
    with build show ?thesis
      unfolding configureCache_def Let_def by (simp add: TYPE_distinct)
  qed
qed

lemma configureCache_config: "config (snd (configureCache env d)) = config d"
proof (cases "validType (Type (Cache (config d)))")
  case False
  then show ?thesis by (simp add: configureCache_invalid)
next
  case True
  show ?thesis
  proof (cases "0 < Size (Cache (config d)) \<or> Type (Cache (config d)) = TYPE_SIMPLE")
    case True
    with \<open>validType (Type (Cache (config d)))\<close> show ?thesis
      by (simp add: configureCache_built warmUp_config)
  next
    case False
    with \<open>validType (Type (Cache (config d)))\<close> show ?thesis
      by (simp add: configureCache_build_panics)
  qed
qed

lemma configureCache_not_ErrWalk: "fst (configureCache env d) \<noteq> Error (ErrWalk dir msg)"
proof (cases "validType (Type (Cache (config d)))")
  case False
  then show ?thesis by (simp add: configureCache_invalid)
next
  case True
  show ?thesis
  proof (cases "0 < Size (Cache (config d)) \<or> Type (Cache (config d)) = TYPE_SIMPLE")
    case True
    with \<open>validType (Type (Cache (config d)))\<close> show ?thesis
      by (simp add: configureCache_built warmUp_not_ErrWalk)
  next
    case False
    with \<open>validType (Type (Cache (config d)))\<close> show ?thesis
      by (simp add: configureCache_build_panics)
  qed
qed

lemma exits_not_running: "s \<noteq> TaskStateRunning \<Longrightarrow> exits s evs = 0"
  by (induction evs) (cases s; simp)+

lemma ex_absent: "Get (tasks NewPlugin) (ID (ex_task raw)) = None"
  by (simp add: NewPlugin_def newTaskStore_def Get_def)

lemma ex_present:
  "Get (tasks (ex_plugin st)) (ID (ex_task raw)) = Some (ex_handle st)"
  by (simp add: ex_plugin_def NewPlugin_def newTaskStore_def Get_def Set_def ex_task_def)

lemma preCacheModules_fst_cong:
  "NewModuleFromFile env = NewModuleFromFile env' \<Longrightarrow> Serialize env = Serialize env' \<Longrightarrow>
   CacheSet env = CacheSet env' \<Longrightarrow> modulesCache d = modulesCache d' \<Longrightarrow>
     fst (preCacheModules env ms d) = fst (preCacheModules env' ms d')"
proof (induction ms arbitrary: d d')
  case Nil
  show ?case by simp
next
  case (Cons p ms)
  from Cons.prems show ?case
    by (auto simp add: Let_def emit_def split: sum.splits option.splits intro!: Cons.IH)
qed

lemma warmUp_fst_cong:
  assumes "NewModuleFromFile env = NewModuleFromFile env'" "Serialize env = Serialize env'"
    and "CacheSet env = CacheSet env'" "WalkEntries env = WalkEntries env'"
    and "modulesCache d = modulesCache d'"
    and "PreCache cc = PreCache cc'" "Size cc = Size cc'"
  shows "fst (warmUp env cc d) = fst (warmUp env' cc' d')"
proof -
  have pc: "fst (preCacheModules env ms d) = fst (preCacheModules env' ms d')" for ms
    using assms by (intro preCacheModules_fst_cong)
  have pc': "preCacheModules env ms d = (r, d2) \<Longrightarrow> preCacheModules env' ms d' = (r', d2') \<Longrightarrow> r = r'"
    for ms r d2 r' d2'
    using pc [of ms] by simp
  from Walk_visitor_cases [of "WalkEntries env (ModulesDir (PreCache cc))" "[]"] show ?thesis
  proof
    assume "Walk (WalkEntries env (ModulesDir (PreCache cc))) visitor [] = Panic NilFileInfo"
    with assms show ?thesis by (simp add: warmUp_def)
  next
    assume "\<exists>ms. Walk (WalkEntries env (ModulesDir (PreCache cc))) visitor [] = Ok (ms, None)"
    then obtain ms where "Walk (WalkEntries env (ModulesDir (PreCache cc))) visitor [] = Ok (ms, None)" ..
    with assms show ?thesis
      by (auto simp add: warmUp_def split: prod.splits result.splits dest: pc')
  qed
qed

lemma SetConfig_calls_configureCache:
  assumes "decodedConfig env cfg = Inr c" and "0 < Size (Cache c)"
    and "\<not> (Expiration_Enabled (Expiration (Cache c)) \<and> EntryTTL (Expiration (Cache c)) \<le> 0)"
    and "Cache_Enabled (Cache c)"
  shows "\<exists>d2. SetConfig env d cfg = configureCache env d2 \<and> config d2 = c \<and>
           trace d2 = trace d \<and> modulesCache d2 = modulesCache d \<and> tasks d2 = tasks d"
proof (cases "AgentConf cfg")
  case None
  with assms have "SetConfig env d cfg = configureCache env (d\<lparr>config := c\<rparr>)"
    by (auto simp add: SetConfig_def Let_def)
  then show ?thesis by (intro exI [of _ "d\<lparr>config := c\<rparr>"]) simp
next
  case (Some agent)
  with assms have "SetConfig env d cfg = configureCache env (d\<lparr>config := c, nomadConfig := Driver agent\<rparr>)"
    by (auto simp add: SetConfig_def Let_def)
  then show ?thesis by (intro exI [of _ "d\<lparr>config := c, nomadConfig := Driver agent\<rparr>"]) simp
qed

lemma SetConfig_config:
  "decodedConfig env cfg = Inr c \<Longrightarrow> config (snd (SetConfig env d cfg)) = c"
  by (simp add: SetConfig_def Let_def configureCache_config split: option.splits)

lemma ex_Walk:
  "Walk ex_entries visitor [] = Ok ([''/m/a.wasm'', ''/m/b.wasm'', ''/m/c.wasm''], None)"
  by (simp add: ex_entries_def visitor_def HasSuffix_def)

lemma ex_decoded: "decodedConfig (ex_env c) ex_base_Config = Inr c"
  by (simp add: decodedConfig_def ex_env_def ex_base_Config_def)

lemma ex_config_fields:
  "Cache_Enabled (Cache (ex_config sz tp pre dir expire ttl))"
  "Size (Cache (ex_config sz tp pre dir expire ttl)) = sz"
  "Type (Cache (ex_config sz tp pre dir expire ttl)) = tp"
  "PreCache_Enabled (PreCache (Cache (ex_config sz tp pre dir expire ttl))) = pre"
  "ModulesDir (PreCache (Cache (ex_config sz tp pre dir expire ttl))) = dir"
  "Expiration_Enabled (Expiration (Cache (ex_config sz tp pre dir expire ttl))) = expire"
  "EntryTTL (Expiration (Cache (ex_config sz tp pre dir expire ttl))) = ttl"
  by (simp_all add: ex_config_def)

lemma ex_validType: "validType ''lfu''" "validType ''lru''" "\<not> validType ''fifo''"
  by (simp_all add: validType_def TYPE_LFU_def TYPE_ARC_def TYPE_LRU_def TYPE_SIMPLE_def)

lemma ex_WalkEntries:
  "Walk (WalkEntries (ex_env c) ''/m'') visitor []
     = Ok ([''/m/a.wasm'', ''/m/b.wasm'', ''/m/c.wasm''], None)"
  "Walk (WalkEntries (ex_env c) ''/none'') visitor [] = Panic NilFileInfo"
  using ex_Walk by (simp_all add: ex_env_def visitor_def)

lemma ex_SetConfig:
  assumes "0 < sz" and "\<not> (expire \<and> ttl \<le> 0)"
  shows "SetConfig (ex_env (ex_config sz tp pre dir expire ttl)) NewPlugin ex_base_Config
     = configureCache (ex_env (ex_config sz tp pre dir expire ttl))
         (NewPlugin\<lparr>config := ex_config sz tp pre dir expire ttl\<rparr>)"
proof -
  have "AgentConf ex_base_Config = None"
    by (simp add: ex_base_Config_def)
  with assms show ?thesis
    by (auto simp add: SetConfig_def ex_decoded Let_def ex_config_fields)
qed

lemma ex_SetConfig_rejects:
  "sz \<le> 0 \<Longrightarrow>
     fst (SetConfig (ex_env (ex_config sz tp pre dir expire ttl)) NewPlugin ex_base_Config)
       = Error (ErrCacheSize sz)"
  "0 < sz \<Longrightarrow> expire \<Longrightarrow> ttl \<le> 0 \<Longrightarrow>
     fst (SetConfig (ex_env (ex_config sz tp pre dir expire ttl)) NewPlugin ex_base_Config)
       = Error (ErrEntryTTL ttl)"
  by (simp_all add: SetConfig_def ex_decoded Let_def ex_config_fields)

lemma ex_configureCache:
  "0 < sz \<Longrightarrow> validType tp \<Longrightarrow>
     configureCache env (NewPlugin\<lparr>config := ex_config sz tp pre dir expire ttl\<rparr>)
       = warmUp env (Cache (ex_config sz tp pre dir expire ttl))
           (NewPlugin\<lparr>config := ex_config sz tp pre dir expire ttl,
                       modulesCache := Some (builtCache (Cache (ex_config sz tp pre dir expire ttl)))\<rparr>)"
  "\<not> validType tp \<Longrightarrow>
     configureCache env (NewPlugin\<lparr>config := ex_config sz tp pre dir expire ttl\<rparr>)
       = (Error (ErrCacheType tp), NewPlugin\<lparr>config := ex_config sz tp pre dir expire ttl\<rparr>)"
  by (simp_all add: configureCache_built configureCache_invalid ex_config_fields)

lemma cachedAll_preCacheModules:
  "cachedAll env pre c = Some c' \<Longrightarrow> modulesCache d = Some c \<Longrightarrow>
     \<exists>d'. preCacheModules env pre d = (Ok (), d') \<and> modulesCache d' = Some c' \<and>
          loadAttempts (trace d') = loadAttempts (trace d) @ pre"
proof (induction pre arbitrary: c d)
  case Nil
  then show ?case by simp
next
  case (Cons q pre)
  from Cons.prems(1) obtain m ser c1 where q:
    "NewModuleFromFile env q = Inr m" "Serialize env m = Inr ser"
    "CacheSet env c q ser = Some c1" "cachedAll env pre c1 = Some c'"
    by (auto split: sum.splits option.splits)
  let ?d1 = "emit (EvLogTrace q)
      ((emit (EvCacheSet q) (emit (EvSerialize q) (emit (EvNewModuleFromFile q) d)))
         \<lparr>modulesCache := Some c1\<rparr>)"
  have step: "preCacheModules env (q # pre) d = preCacheModules env pre ?d1"
    using q Cons.prems(2) by (simp add: Let_def emit_def)
  have "modulesCache ?d1 = Some c1"
    by (simp add: emit_def)
  from Cons.IH [OF q(4) this] obtain d' where d':
    "preCacheModules env pre ?d1 = (Ok (), d')" "modulesCache d' = Some c'"
    "loadAttempts (trace d') = loadAttempts (trace ?d1) @ pre"
    by blast
  have "loadAttempts (trace ?d1) = loadAttempts (trace d) @ [q]"
    by (simp add: emit_def loadAttempts_append)
  with step d' show ?case by simp
qed

lemma preCacheModules_load_fails:
  "NewModuleFromFile env p = Inl msg \<Longrightarrow>
     fst (preCacheModules env (p # post) d) = Error (ErrLoadModule p msg)"
  by simp

lemma preCacheModules_serialize_fails:
  "NewModuleFromFile env p = Inr m \<Longrightarrow> Serialize env m = Inl msg \<Longrightarrow>
     fst (preCacheModules env (p # post) d) = Error (ErrSerializeModule p msg)"
  by (simp add: Let_def)

lemma preCacheModules_cache_set_fails:
  "NewModuleFromFile env p = Inr m \<Longrightarrow> Serialize env m = Inr ser \<Longrightarrow>
   modulesCache d = Some c \<Longrightarrow> CacheSet env c p ser = None \<Longrightarrow>
     fst (preCacheModules env (p # post) d) = Error (ErrCacheModule p)"
  by (simp add: Let_def emit_def)

lemma cachedAll_single_fails:
  "cachedAll env [p] c = None \<Longrightarrow> modulesCache d = Some c \<Longrightarrow>
     \<exists>e. fst (preCacheModules env [p] d) = Error e"
  by (auto simp add: Let_def emit_def split: sum.splits option.splits)

lemma warmUp_reaches_loop:
  assumes "cc = Cache (config d)" and "validType (Type cc)" and "PreCache_Enabled (PreCache cc)"
    and "Walk (WalkEntries env (ModulesDir (PreCache cc))) visitor [] = Ok (ms, None)"
    and "int (length ms) \<le> Size cc" and "ms \<noteq> []"
    and "fst (preCacheModules env ms (d\<lparr>modulesCache := Some (builtCache cc)\<rparr>)) = Error e"
  shows "configureCache env d = preCacheModules env ms (d\<lparr>modulesCache := Some (builtCache cc)\<rparr>)"
proof -
  from assms(5,6) have "0 < Size cc" by (cases ms) simp_all
  with assms(1,2) have "configureCache env d
      = warmUp env cc (d\<lparr>modulesCache := Some (builtCache cc)\<rparr>)"
    by (simp add: configureCache_built)
  also have "\<dots> = preCacheModules env ms (d\<lparr>modulesCache := Some (builtCache cc)\<rparr>)"
    using assms(3,4,5,7)
    by (cases "preCacheModules env ms (d\<lparr>modulesCache := Some (builtCache cc)\<rparr>)")
       (simp add: warmUp_def)
  finally show ?thesis .
qed

section \<open>The task lifecycle\<close>

text \<open>
  Claim C1. \<^verbatim>\<open>DestroyTask\<close> first looks the id up and returns the not-found error if it
  is absent. If the task is running and \<open>force\<close> is false, it returns an error and the
  plugin, with the task registered, is unchanged. If the task is running and \<open>force\<close> is
  true, it calls \<^verbatim>\<open>stop()\<close> on the handle and then deletes the id. Whenever it does
  not reject, the id is no longer in the registry afterwards and every other id is
  registered as before.
\<close>

theorem DestroyTask_cases:
  "(Get (tasks d) taskID = None \<longrightarrow> DestroyTask d taskID force = (Error ErrTaskNotFound, d)) \<and>
   (Get (tasks d) taskID = Some h \<and> IsRunning h \<and> \<not> force \<longrightarrow>
      DestroyTask d taskID force = (Error ErrCannotDestroyRunning, d) \<and>
      Get (tasks (snd (DestroyTask d taskID force))) taskID = Some h) \<and>
   (Get (tasks d) taskID = Some h \<and> IsRunning h \<and> force \<longrightarrow>
      fst (DestroyTask d taskID force) = Ok () \<and>
      trace (snd (DestroyTask d taskID force)) = trace d @ [EvStop taskID, EvTasksDelete taskID]) \<and>
   (Get (tasks d) taskID = Some h \<and> \<not> IsRunning h \<longrightarrow>
      fst (DestroyTask d taskID force) = Ok () \<and>
      trace (snd (DestroyTask d taskID force)) = trace d @ [EvTasksDelete taskID]) \<and>
   (Get (tasks d) taskID = Some h \<and> \<not> (IsRunning h \<and> \<not> force) \<longrightarrow>
      Get (tasks (snd (DestroyTask d taskID force))) taskID = None \<and>
      (\<forall>other. other \<noteq> taskID \<longrightarrow>
         Get (tasks (snd (DestroyTask d taskID force))) other = Get (tasks d) other))"
proof (cases "Get (tasks d) taskID")
  case None
  then show ?thesis by (simp add: DestroyTask_def)
next
  case (Some handle)
  show ?thesis
  proof (cases "IsRunning handle")
    case running: True
    show ?thesis
    proof (cases force)
      case True
      with Some running show ?thesis
        by (auto simp add: DestroyTask_def Let_def emit_def Delete_def Get_def)
    next
      case False
      with Some running show ?thesis
        by (auto simp add: DestroyTask_def)
    qed
  next
    case False
    with Some show ?thesis
      by (auto simp add: DestroyTask_def Let_def emit_def Delete_def Get_def)
  qed
qed

theorem DestroyTask_cases_witness:
  "DestroyTask NewPlugin ''t1'' True = (Error ErrTaskNotFound, NewPlugin) \<and>
   DestroyTask (ex_plugin TaskStateRunning) ''t1'' False
     = (Error ErrCannotDestroyRunning, ex_plugin TaskStateRunning) \<and>
   fst (DestroyTask (ex_plugin TaskStateRunning) ''t1'' True) = Ok () \<and>
   trace (snd (DestroyTask (ex_plugin TaskStateRunning) ''t1'' True))
     = [EvStop ''t1'', EvTasksDelete ''t1''] \<and>
   Get (tasks (snd (DestroyTask (ex_plugin TaskStateRunning) ''t1'' True))) ''t1'' = None \<and>
   fst (DestroyTask (ex_plugin TaskStateExited) ''t1'' False) = Ok () \<and>
   trace (snd (DestroyTask (ex_plugin TaskStateExited) ''t1'' False)) = [EvTasksDelete ''t1''] \<and>
   Get (tasks (snd (DestroyTask (ex_plugin TaskStateExited) ''t1'' False))) ''t1'' = None"
proof -
  have absent: "Get (tasks NewPlugin) ''t1'' = None"
    by (simp add: NewPlugin_def newTaskStore_def Get_def)
  have present: "Get (tasks (ex_plugin st)) ''t1'' = Some (ex_handle st)" for st
    by (simp add: ex_plugin_def NewPlugin_def newTaskStore_def Get_def Set_def)
  have running: "IsRunning (ex_handle TaskStateRunning)" "\<not> IsRunning (ex_handle TaskStateExited)"
    by (simp_all add: IsRunning_def ex_handle_def)
  have empty: "trace (ex_plugin st) = []" for st
    by (simp add: ex_plugin_def NewPlugin_def)
  note a = DestroyTask_cases [where d = NewPlugin and taskID = "''t1''" and force = True]
  note b = DestroyTask_cases [where d = "ex_plugin TaskStateRunning" and taskID = "''t1''"
      and force = False and h = "ex_handle TaskStateRunning"]
  note c = DestroyTask_cases [where d = "ex_plugin TaskStateRunning" and taskID = "''t1''"
      and force = True and h = "ex_handle TaskStateRunning"]
  note e = DestroyTask_cases [where d = "ex_plugin TaskStateExited" and taskID = "''t1''"
      and force = False and h = "ex_handle TaskStateExited"]
  from a b c e absent present running empty show ?thesis by simp
qed

text \<open>
  Claim C2, as stated, fails: for an id that is not registered, \<^verbatim>\<open>StartTask\<close> registers
  nothing when the driver configuration of the task does not decode. Here the registry is
  empty before and after the call.
\<close>

theorem StartTask_undecodable_counterexample:
  "Get (tasks NewPlugin) (ID (ex_task [])) = None \<and>
   fst (StartTask (ex_env Config_zero) NewPlugin (ex_task [])) = Error (ErrDecodeDriverConfig ''EOF'') \<and>
   Get (tasks (snd (StartTask (ex_env Config_zero) NewPlugin (ex_task [])))) (ID (ex_task [])) = None"
  by (simp add: StartTask_def ex_env_def ex_task_def NewPlugin_def newTaskStore_def Get_def)

text \<open>
  Claim C2, amended. For an id that is registered, \<^verbatim>\<open>StartTask\<close> returns the duplicate
  error and leaves the plugin as it was: no handle is made, and the id still has its
  one task. For an id that is not registered: if the driver configuration does not
  decode, or the driver state does not encode, it returns that error and the registry is
  as before; otherwise it succeeds and registers one task under that id, every other id
  being registered as before.
\<close>

theorem StartTask_registers:
  "(Get (tasks d) (ID cfg) = Some h \<longrightarrow>
      StartTask env d cfg = (Error (ErrTaskAlreadyStarted (ID cfg)), d) \<and>
      Get (tasks (snd (StartTask env d cfg))) (ID cfg) = Some h) \<and>
   (Get (tasks d) (ID cfg) = None \<and> DecodeDriverConfig env cfg = Inl err \<longrightarrow>
      StartTask env d cfg = (Error (ErrDecodeDriverConfig err), d)) \<and>
   (Get (tasks d) (ID cfg) = None \<and> DecodeDriverConfig env cfg = Inr driverConfig \<and>
    SetDriverState env \<lparr>State_TaskConfig = cfg, State_StartedAt = Now env\<rparr> = Inl err' \<longrightarrow>
      fst (StartTask env d cfg) = Error (ErrSetDriverState err') \<and>
      tasks (snd (StartTask env d cfg)) = tasks d) \<and>
   (Get (tasks d) (ID cfg) = None \<and> DecodeDriverConfig env cfg = Inr driverConfig \<and>
    SetDriverState env \<lparr>State_TaskConfig = cfg, State_StartedAt = Now env\<rparr> = Inr encoded \<longrightarrow>
      (\<exists>handle. fst (StartTask env d cfg) = Ok handle) \<and>
      (\<exists>h'. Get (tasks (snd (StartTask env d cfg))) (ID cfg) = Some h' \<and> taskConfig h' = cfg) \<and>
      (\<forall>other. other \<noteq> ID cfg \<longrightarrow>
         Get (tasks (snd (StartTask env d cfg))) other = Get (tasks d) other) \<and>
      dom (tasks (snd (StartTask env d cfg))) = insert (ID cfg) (dom (tasks d)) \<and>
      length (filter (\<lambda>ev. \<exists>st. ev = EvTasksSet (ID cfg) st) (trace (snd (StartTask env d cfg))))
        = Suc (length (filter (\<lambda>ev. \<exists>st. ev = EvTasksSet (ID cfg) st) (trace d))))"
proof (cases "Get (tasks d) (ID cfg)")
  case (Some handle)
  then show ?thesis by (auto simp add: StartTask_def)
next
  case None
  show ?thesis
  proof (cases "DecodeDriverConfig env cfg")
    case (Inl msg)
    with None show ?thesis by (auto simp add: StartTask_def)
  next
    case (Inr decoded)
    show ?thesis
    proof (cases "SetDriverState env \<lparr>State_TaskConfig = cfg, State_StartedAt = Now env\<rparr>")
      case (Inl msg)
      with None Inr show ?thesis
        by (auto simp add: StartTask_def Let_def emit_def)
    next
      case encoded: (Inr bytes)
      with None Inr show ?thesis
        by (auto simp add: StartTask_def Let_def emit_def Set_def Get_def)
    qed
  qed
qed

theorem StartTask_registers_witness:
  "StartTask (ex_env Config_zero) (ex_plugin TaskStateExited) (ex_task [1])
     = (Error (ErrTaskAlreadyStarted ''t1''), ex_plugin TaskStateExited) \<and>
   StartTask (ex_env Config_zero) NewPlugin (ex_task [])
     = (Error (ErrDecodeDriverConfig ''EOF''), NewPlugin) \<and>
   fst (StartTask ex_env_noenc NewPlugin (ex_task [1])) = Error (ErrSetDriverState ''encode'') \<and>
   dom (tasks (snd (StartTask ex_env_noenc NewPlugin (ex_task [1])))) = {} \<and>
   dom (tasks (snd (StartTask (ex_env Config_zero) NewPlugin (ex_task [1])))) = {''t1''}"
proof -
  have dec_bad: "DecodeDriverConfig (ex_env Config_zero) (ex_task []) = Inl ''EOF''"
    by (simp add: ex_env_def ex_task_def)
  have dec_ok: "DecodeDriverConfig (ex_env Config_zero) (ex_task [1]) = Inr ex_TaskConfig"
    by (simp add: ex_env_def ex_task_def)
  have dec_ok': "DecodeDriverConfig ex_env_noenc (ex_task [1]) = Inr ex_TaskConfig"
    by (simp add: ex_env_noenc_def ex_env_def ex_task_def)
  have enc_bad: "SetDriverState ex_env_noenc
      \<lparr>State_TaskConfig = ex_task [1], State_StartedAt = Now ex_env_noenc\<rparr> = Inl ''encode''"
    by (simp add: ex_env_noenc_def)
  have enc_ok: "SetDriverState (ex_env Config_zero)
      \<lparr>State_TaskConfig = ex_task [1], State_StartedAt = Now (ex_env Config_zero)\<rparr> = Inr [1]"
    by (simp add: ex_env_def)
  have id: "ID (ex_task raw) = ''t1''" for raw
    by (simp add: ex_task_def)
  have empty: "dom (tasks NewPlugin) = {}"
    by (simp add: NewPlugin_def newTaskStore_def)
  note a = StartTask_registers [where d = "ex_plugin TaskStateExited" and cfg = "ex_task [1]"
      and h = "ex_handle TaskStateExited" and env = "ex_env Config_zero"]
  note b = StartTask_registers [where d = NewPlugin and cfg = "ex_task []"
      and env = "ex_env Config_zero" and err = "''EOF''"]
  note c = StartTask_registers [where d = NewPlugin and cfg = "ex_task [1]"
      and env = ex_env_noenc and err' = "''encode''" and driverConfig = ex_TaskConfig]
  note e = StartTask_registers [where d = NewPlugin and cfg = "ex_task [1]"
      and env = "ex_env Config_zero" and encoded = "[1]" and driverConfig = ex_TaskConfig]
  from a b c e ex_absent ex_present dec_bad dec_ok dec_ok' enc_bad enc_ok id empty
  show ?thesis by simp
qed

text \<open>
  Claim C3. For a task id that is not in the registry, \<^verbatim>\<open>InspectTask\<close>, \<^verbatim>\<open>WaitTask\<close>,
  \<^verbatim>\<open>StopTask\<close>, \<^verbatim>\<open>DestroyTask\<close>, \<^verbatim>\<open>TaskStats\<close> and \<^verbatim>\<open>SignalTask\<close> each return the error
  \<^verbatim>\<open>ErrTaskNotFound\<close> (an error value, not a panic) and leave the plugin, and so the
  registry, as it was.
\<close>

theorem unknown_task_not_found:
  assumes "Get (tasks d) taskID = None"
  shows "InspectTask d taskID = (Error ErrTaskNotFound, d) \<and>
         WaitTask d taskID = (Error ErrTaskNotFound, d) \<and>
         StopTask d taskID timeout signal = (Error ErrTaskNotFound, d) \<and>
         DestroyTask d taskID force = (Error ErrTaskNotFound, d) \<and>
         TaskStats d taskID interval = (Error ErrTaskNotFound, d) \<and>
         SignalTask d taskID signal = (Error ErrTaskNotFound, d)"
  using assms
  by (simp add: InspectTask_def WaitTask_def StopTask_def DestroyTask_def TaskStats_def
      SignalTask_def)

theorem unknown_task_not_found_witness:
  "Get (tasks (ex_plugin TaskStateRunning)) ''t2'' = None \<and>
   InspectTask (ex_plugin TaskStateRunning) ''t2''
     = (Error ErrTaskNotFound, ex_plugin TaskStateRunning) \<and>
   WaitTask (ex_plugin TaskStateRunning) ''t2''
     = (Error ErrTaskNotFound, ex_plugin TaskStateRunning) \<and>
   StopTask (ex_plugin TaskStateRunning) ''t2'' 5 ''SIGTERM''
     = (Error ErrTaskNotFound, ex_plugin TaskStateRunning) \<and>
   DestroyTask (ex_plugin TaskStateRunning) ''t2'' True
     = (Error ErrTaskNotFound, ex_plugin TaskStateRunning) \<and>
   TaskStats (ex_plugin TaskStateRunning) ''t2'' 1
     = (Error ErrTaskNotFound, ex_plugin TaskStateRunning) \<and>
   SignalTask (ex_plugin TaskStateRunning) ''t2'' ''SIGTERM''
     = (Error ErrTaskNotFound, ex_plugin TaskStateRunning)"
proof -
  have absent: "Get (tasks (ex_plugin TaskStateRunning)) ''t2'' = None"
    by (simp add: ex_plugin_def NewPlugin_def Set_def Get_def newTaskStore_def)
  from unknown_task_not_found [OF absent, of 5 "''SIGTERM''" True 1] absent
  show ?thesis by simp
qed

text \<open>
  Claim C8, as stated, fails: the handle that \<^verbatim>\<open>StartTask\<close> makes is in the state
  Running from its construction. It is registered, and so observable, in that state, and
  only then is the goroutine spawned that will make the engine call.
\<close>

theorem task_running_before_goroutine_counterexample:
  "trace (snd (StartTask (ex_env Config_zero) NewPlugin (ex_task [1])))
     = [EvLogInfo ''starting task'', EvTasksSet ''t1'' TaskStateRunning, EvGoRun ''t1''] \<and>
   map_option procState
       (Get (tasks (snd (StartTask (ex_env Config_zero) NewPlugin (ex_task [1])))) ''t1'')
     = Some TaskStateRunning"
  by (simp add: StartTask_def ex_env_def ex_task_def NewPlugin_def newTaskStore_def Get_def Set_def
      emit_def Let_def)

text \<open>
  Claim C8, amended. The driver has no Starting state: a task that \<^verbatim>\<open>StartTask\<close>
  starts is registered in the state Running before its one goroutine is spawned, and
  \<^verbatim>\<open>InspectTask\<close> reports Running as soon as \<^verbatim>\<open>StartTask\<close> has returned. From Running, the
  transition to Exited happens at most once along any sequence of lifecycle events, and
  exactly once, ending in Exited, along any sequence that is not empty.
\<close>

theorem task_created_running:
  "(Get (tasks d) (ID cfg) = None \<and> DecodeDriverConfig env cfg = Inr driverConfig \<and>
    SetDriverState env \<lparr>State_TaskConfig = cfg, State_StartedAt = Now env\<rparr> = Inr encoded \<longrightarrow>
      trace (snd (StartTask env d cfg))
        = trace d @ [EvLogInfo ''starting task'', EvTasksSet (ID cfg) TaskStateRunning, EvGoRun (ID cfg)] \<and>
      map_option procState (Get (tasks (snd (StartTask env d cfg))) (ID cfg)) = Some TaskStateRunning \<and>
      map_option Status_State (case fst (InspectTask (snd (StartTask env d cfg)) (ID cfg)) of
         Ok status \<Rightarrow> Some status | _ \<Rightarrow> None) = Some TaskStateRunning) \<and>
   exits TaskStateRunning evs \<le> 1 \<and>
   (evs \<noteq> [] \<longrightarrow>
      exits TaskStateRunning evs = 1 \<and> foldl lifecycle_step TaskStateRunning evs = TaskStateExited)"
proof -
  have fold_exited: "foldl lifecycle_step TaskStateExited es = TaskStateExited" for es
    by (induction es) simp_all
  have "exits TaskStateRunning evs \<le> 1"
    by (cases evs) (simp_all add: exits_not_running)
  moreover have "evs \<noteq> [] \<longrightarrow> exits TaskStateRunning evs = 1 \<and>
      foldl lifecycle_step TaskStateRunning evs = TaskStateExited"
    by (cases evs) (simp_all add: exits_not_running fold_exited)
  moreover have "Get (tasks d) (ID cfg) = None \<and> DecodeDriverConfig env cfg = Inr driverConfig \<and>
    SetDriverState env \<lparr>State_TaskConfig = cfg, State_StartedAt = Now env\<rparr> = Inr encoded \<longrightarrow>
      trace (snd (StartTask env d cfg))
        = trace d @ [EvLogInfo ''starting task'', EvTasksSet (ID cfg) TaskStateRunning, EvGoRun (ID cfg)] \<and>
      map_option procState (Get (tasks (snd (StartTask env d cfg))) (ID cfg)) = Some TaskStateRunning \<and>
      map_option Status_State (case fst (InspectTask (snd (StartTask env d cfg)) (ID cfg)) of
         Ok status \<Rightarrow> Some status | _ \<Rightarrow> None) = Some TaskStateRunning"
    by (auto simp add: StartTask_def InspectTask_def TaskStatus_of_def Get_def Set_def emit_def Let_def)
  ultimately show ?thesis by blast
qed

theorem task_created_running_witness:
  "trace (snd (StartTask (ex_env Config_zero) (ex_plugin TaskStateExited) \<lparr>ID = ''t2'', rawDriverConfig = [1]\<rparr>))
     = [EvLogInfo ''starting task'', EvTasksSet ''t2'' TaskStateRunning, EvGoRun ''t2''] \<and>
   map_option procState
       (Get (tasks (snd (StartTask (ex_env Config_zero) (ex_plugin TaskStateExited)
          \<lparr>ID = ''t2'', rawDriverConfig = [1]\<rparr>))) ''t2'')
     = Some TaskStateRunning \<and>
   exits TaskStateRunning [AbortObserved, CallReturned] = 1 \<and>
   foldl lifecycle_step TaskStateRunning [AbortObserved, CallReturned] = TaskStateExited"
proof -
  let ?cfg = "\<lparr>ID = ''t2'', rawDriverConfig = [1]\<rparr>"
  have absent: "Get (tasks (ex_plugin TaskStateExited)) (ID ?cfg) = None"
    by (simp add: ex_plugin_def NewPlugin_def Set_def Get_def newTaskStore_def)
  have dec: "DecodeDriverConfig (ex_env Config_zero) ?cfg = Inr ex_TaskConfig"
    by (simp add: ex_env_def)
  have enc: "SetDriverState (ex_env Config_zero)
      \<lparr>State_TaskConfig = ?cfg, State_StartedAt = Now (ex_env Config_zero)\<rparr> = Inr [1]"
    by (simp add: ex_env_def)
  have empty: "trace (ex_plugin TaskStateExited) = []"
    by (simp add: ex_plugin_def NewPlugin_def)
  note a = task_created_running [where d = "ex_plugin TaskStateExited" and cfg = ?cfg
      and env = "ex_env Config_zero" and driverConfig = ex_TaskConfig and encoded = "[1]"
      and evs = "[AbortObserved, CallReturned]"]
  from a absent dec enc empty show ?thesis by simp
qed

section \<open>Plugin configuration and cache warm-up\<close>

text \<open>
  Claim C4. When pre-caching is enabled and the directory walk finds more modules than
  the cache size, \<^verbatim>\<open>configureCache\<close> fails with the error that carries the cache size
  and the number of modules found, having made no call on the engine or the cache for any
  module: the trace is as before and the cache it built is empty. So does \<^verbatim>\<open>SetConfig\<close>,
  which calls \<^verbatim>\<open>configureCache\<close> when the cache is enabled and the size and the TTL have
  passed its checks. (The size is positive whenever \<^verbatim>\<open>SetConfig\<close> calls
  \<^verbatim>\<open>configureCache\<close>, and the walk is made only for a cache type that is accepted.)
\<close>

theorem preCache_more_modules_than_cache_size:
  "(validType (Type (Cache (config d))) \<and> 0 < Size (Cache (config d)) \<and>
    PreCache_Enabled (PreCache (Cache (config d))) \<and>
    Walk (WalkEntries env (ModulesDir (PreCache (Cache (config d))))) visitor []
      = Ok (modulesPath, None) \<and>
    Size (Cache (config d)) < int (length modulesPath) \<longrightarrow>
      fst (configureCache env d)
        = Error (ErrPreCacheCount (Size (Cache (config d))) (length modulesPath)) \<and>
      trace (snd (configureCache env d)) = trace d \<and>
      map_option Cache_items (modulesCache (snd (configureCache env d))) = Some []) \<and>
   (decodedConfig env cfg = Inr c \<and> Cache_Enabled (Cache c) \<and> 0 < Size (Cache c) \<and>
    \<not> (Expiration_Enabled (Expiration (Cache c)) \<and> EntryTTL (Expiration (Cache c)) \<le> 0) \<and>
    validType (Type (Cache c)) \<and> PreCache_Enabled (PreCache (Cache c)) \<and>
    Walk (WalkEntries env (ModulesDir (PreCache (Cache c)))) visitor [] = Ok (found, None) \<and>
    Size (Cache c) < int (length found) \<longrightarrow>
      fst (SetConfig env d' cfg) = Error (ErrPreCacheCount (Size (Cache c)) (length found)) \<and>
      trace (snd (SetConfig env d' cfg)) = trace d' \<and>
      map_option Cache_items (modulesCache (snd (SetConfig env d' cfg))) = Some [])"
proof -
  have inner: "fst (configureCache env x) = Error (ErrPreCacheCount (Size (Cache (config x))) (length ms)) \<and>
      trace (snd (configureCache env x)) = trace x \<and>
      map_option Cache_items (modulesCache (snd (configureCache env x))) = Some []"
    if "validType (Type (Cache (config x)))" "0 < Size (Cache (config x))"
      "PreCache_Enabled (PreCache (Cache (config x)))"
      "Walk (WalkEntries env (ModulesDir (PreCache (Cache (config x))))) visitor [] = Ok (ms, None)"
      "Size (Cache (config x)) < int (length ms)" for x ms
    using that by (simp add: configureCache_built warmUp_def builtCache_def)
  have outer: "fst (SetConfig env d' cfg) = Error (ErrPreCacheCount (Size (Cache c)) (length found)) \<and>
      trace (snd (SetConfig env d' cfg)) = trace d' \<and>
      map_option Cache_items (modulesCache (snd (SetConfig env d' cfg))) = Some []"
    if dec: "decodedConfig env cfg = Inr c" and en: "Cache_Enabled (Cache c)"
      and sz: "0 < Size (Cache c)"
      and ttl: "\<not> (Expiration_Enabled (Expiration (Cache c)) \<and> EntryTTL (Expiration (Cache c)) \<le> 0)"
      and rest: "validType (Type (Cache c))" "PreCache_Enabled (PreCache (Cache c))"
      "Walk (WalkEntries env (ModulesDir (PreCache (Cache c)))) visitor [] = Ok (found, None)"
      "Size (Cache c) < int (length found)"
  proof -
    from SetConfig_calls_configureCache [OF dec sz ttl en, of d']
    obtain d2 where d2: "SetConfig env d' cfg = configureCache env d2" "config d2 = c"
      "trace d2 = trace d'"
      by blast
    from inner [of d2 found] sz rest d2 show ?thesis by simp
  qed
  from inner [of d modulesPath] outer show ?thesis by blast
qed

theorem preCache_more_modules_than_cache_size_witness:
  "fst (SetConfig (ex_env (ex_config 2 ''lfu'' True ''/m'' True 600)) NewPlugin ex_base_Config)
     = Error (ErrPreCacheCount 2 3) \<and>
   trace (snd (SetConfig (ex_env (ex_config 2 ''lfu'' True ''/m'' True 600)) NewPlugin ex_base_Config))
     = [] \<and>
   fst (configureCache (ex_env Config_zero)
          (NewPlugin\<lparr>config := ex_config 2 ''lfu'' True ''/m'' True 600\<rparr>))
     = Error (ErrPreCacheCount 2 3)"
proof -
  let ?c = "ex_config 2 ''lfu'' True ''/m'' True 600"
  have c: "Cache_Enabled (Cache ?c)" "Size (Cache ?c) = 2" "validType (Type (Cache ?c))"
    "PreCache_Enabled (PreCache (Cache ?c))" "Expiration_Enabled (Expiration (Cache ?c))"
    "EntryTTL (Expiration (Cache ?c)) = 600" "ModulesDir (PreCache (Cache ?c)) = ''/m''"
    by (simp_all add: ex_config_def validType_def TYPE_LFU_def)
  have w: "Walk (WalkEntries (ex_env x) ''/m'') visitor []
      = Ok ([''/m/a.wasm'', ''/m/b.wasm'', ''/m/c.wasm''], None)" for x
    using ex_Walk by (simp add: ex_env_def)
  have t: "trace NewPlugin = []"
    by (simp add: NewPlugin_def)
  note a = preCache_more_modules_than_cache_size [where env = "ex_env ?c" and d' = NewPlugin
      and cfg = ex_base_Config and c = ?c and found = "[''/m/a.wasm'', ''/m/b.wasm'', ''/m/c.wasm'']"
      and d = "NewPlugin\<lparr>config := ?c\<rparr>"
      and modulesPath = "[''/m/a.wasm'', ''/m/b.wasm'', ''/m/c.wasm'']"]
  note b = preCache_more_modules_than_cache_size [where env = "ex_env Config_zero" and d' = NewPlugin
      and cfg = ex_base_Config and c = ?c and found = "[]"
      and d = "NewPlugin\<lparr>config := ?c\<rparr>"
      and modulesPath = "[''/m/a.wasm'', ''/m/b.wasm'', ''/m/c.wasm'']"]
  from a b c w t ex_decoded [of ?c] show ?thesis by simp
qed

text \<open>
  Claim C5. In the warm-up, let the modules found before \<open>p\<close> all load, serialise and
  go into the cache, leaving the cache \<open>c\<close>. If loading \<open>p\<close> from its file fails,
  \<^verbatim>\<open>configureCache\<close> returns the load error for \<open>p\<close>; if \<open>p\<close> loads and serialising it
  fails, the serialisation error for \<open>p\<close>; if both succeed and putting it into \<open>c\<close>
  fails, the cache error for \<open>p\<close>. Whenever one of the three fails for \<open>p\<close>, the error
  returned names the path \<open>p\<close>, and the modules the loop has started on are those before
  \<open>p\<close> and \<open>p\<close>: none of the modules after it.
\<close>

theorem warmUp_aborts_at_first_failing_module:
  assumes "cc = Cache (config d)"
    and "validType (Type cc)" and "PreCache_Enabled (PreCache cc)"
    and "Walk (WalkEntries env (ModulesDir (PreCache cc))) visitor [] = Ok (pre @ p # post, None)"
    and "int (length (pre @ p # post)) \<le> Size cc"
    and "cachedAll env pre (builtCache cc) = Some c"
  shows "(NewModuleFromFile env p = Inl msg \<longrightarrow>
            fst (configureCache env d) = Error (ErrLoadModule p msg)) \<and>
         (NewModuleFromFile env p = Inr m \<and> Serialize env m = Inl msg \<longrightarrow>
            fst (configureCache env d) = Error (ErrSerializeModule p msg)) \<and>
         (NewModuleFromFile env p = Inr m \<and> Serialize env m = Inr ser \<and>
          CacheSet env c p ser = None \<longrightarrow>
            fst (configureCache env d) = Error (ErrCacheModule p)) \<and>
         (cachedAll env [p] c = None \<longrightarrow>
            (\<exists>e. fst (configureCache env d) = Error e \<and> error_path e = Some p) \<and>
            loadAttempts (trace (snd (configureCache env d))) = loadAttempts (trace d) @ pre @ [p])"
proof -
  let ?d1 = "d\<lparr>modulesCache := Some (builtCache cc)\<rparr>"
  have "modulesCache ?d1 = Some (builtCache cc)" by simp
  from cachedAll_preCacheModules [OF assms(6) this] obtain d' where d':
    "preCacheModules env pre ?d1 = (Ok (), d')" "modulesCache d' = Some c"
    "loadAttempts (trace d') = loadAttempts (trace d) @ pre"
    by auto
  from d'(1) have split: "preCacheModules env (pre @ p # post) ?d1 = preCacheModules env (p # post) d'"
    by (rule preCacheModules_append)
  have reach: "configureCache env d = preCacheModules env (p # post) d'"
    if "fst (preCacheModules env (p # post) d') = Error e" for e
    using warmUp_reaches_loop [OF assms(1-5), of e] that split by simp
  have load: "fst (configureCache env d) = Error (ErrLoadModule p msg)"
    if "NewModuleFromFile env p = Inl msg"
    using reach [OF preCacheModules_load_fails [OF that]] preCacheModules_load_fails [OF that]
    by simp
  have serialize: "fst (configureCache env d) = Error (ErrSerializeModule p msg)"
    if "NewModuleFromFile env p = Inr m" "Serialize env m = Inl msg"
    using reach [OF preCacheModules_serialize_fails [OF that]]
      preCacheModules_serialize_fails [OF that]
    by simp
  have cache: "fst (configureCache env d) = Error (ErrCacheModule p)"
    if "NewModuleFromFile env p = Inr m" "Serialize env m = Inr ser" "CacheSet env c p ser = None"
    using reach [OF preCacheModules_cache_set_fails [OF that(1,2) d'(2) that(3)]]
      preCacheModules_cache_set_fails [OF that(1,2) d'(2) that(3)]
    by simp
  have any: "(\<exists>e. fst (configureCache env d) = Error e \<and> error_path e = Some p) \<and>
      loadAttempts (trace (snd (configureCache env d))) = loadAttempts (trace d) @ pre @ [p]"
    if "cachedAll env [p] c = None"
  proof -
    from cachedAll_single_fails [OF that d'(2)] obtain e where
      e: "fst (preCacheModules env [p] d') = Error e" ..
    from preCacheModules_head_fails [OF e, of post]
    have head: "preCacheModules env (p # post) d' = preCacheModules env [p] d'"
      and path: "error_path e = Some p"
      by simp_all
    from head e have "fst (preCacheModules env (p # post) d') = Error e" by simp
    from reach [OF this] head have cc: "configureCache env d = preCacheModules env [p] d'"
      by simp
    from preCacheModules_loadAttempts_single [OF e] d'(3)
    have "loadAttempts (trace (snd (preCacheModules env [p] d'))) = loadAttempts (trace d) @ pre @ [p]"
      by simp
    with cc e path show ?thesis by simp
  qed
  from load serialize cache any show ?thesis by blast
qed

theorem warmUp_aborts_at_first_failing_module_witness:
  "fst (configureCache (ex_env Config_zero)
          (NewPlugin\<lparr>config := ex_config 5 ''lru'' True ''/m'' False 0\<rparr>))
     = Error (ErrLoadModule ''/m/b.wasm'' ''invalid module'') \<and>
   loadAttempts (trace (snd (configureCache (ex_env Config_zero)
          (NewPlugin\<lparr>config := ex_config 5 ''lru'' True ''/m'' False 0\<rparr>))))
     = [''/m/a.wasm'', ''/m/b.wasm''] \<and>
   fst (configureCache ex_env_noser
          (NewPlugin\<lparr>config := ex_config 5 ''lru'' True ''/m'' False 0\<rparr>))
     = Error (ErrSerializeModule ''/m/b.wasm'' ''not serializable'') \<and>
   loadAttempts (trace (snd (configureCache ex_env_noser
          (NewPlugin\<lparr>config := ex_config 5 ''lru'' True ''/m'' False 0\<rparr>))))
     = [''/m/a.wasm'', ''/m/b.wasm''] \<and>
   fst (configureCache ex_env_noset
          (NewPlugin\<lparr>config := ex_config 5 ''lru'' True ''/m'' False 0\<rparr>))
     = Error (ErrCacheModule ''/m/b.wasm'') \<and>
   loadAttempts (trace (snd (configureCache ex_env_noset
          (NewPlugin\<lparr>config := ex_config 5 ''lru'' True ''/m'' False 0\<rparr>))))
     = [''/m/a.wasm'', ''/m/b.wasm'']"
proof -
  let ?c = "ex_config 5 ''lru'' True ''/m'' False 0"
  let ?d = "NewPlugin\<lparr>config := ?c\<rparr>"
  let ?after = "(builtCache (Cache ?c))\<lparr>Cache_items := [(''/m/a.wasm'', [0])]\<rparr>"
  have cc: "Cache ?c = Cache (config ?d)"
    by simp
  have c: "validType (Type (Cache ?c))" "PreCache_Enabled (PreCache (Cache ?c))"
    by (simp_all add: ex_config_fields ex_validType)
  have w: "Walk (WalkEntries env (ModulesDir (PreCache (Cache ?c)))) visitor []
      = Ok ([''/m/a.wasm''] @ ''/m/b.wasm'' # [''/m/c.wasm''], None)"
    if "WalkEntries env = WalkEntries (ex_env Config_zero)" for env :: environment
    using that ex_WalkEntries(1) [of Config_zero] by (simp add: ex_config_fields)
  have walks: "WalkEntries ex_env_noser = WalkEntries (ex_env Config_zero)"
    "WalkEntries ex_env_noset = WalkEntries (ex_env Config_zero)"
    by (simp_all add: ex_env_noser_def ex_env_noset_def)
  have len: "int (length ([''/m/a.wasm''] @ ''/m/b.wasm'' # [''/m/c.wasm''])) \<le> Size (Cache ?c)"
    by (simp add: ex_config_fields)
  have pre: "cachedAll (ex_env Config_zero) [''/m/a.wasm''] (builtCache (Cache ?c)) = Some ?after"
    "cachedAll ex_env_noser [''/m/a.wasm''] (builtCache (Cache ?c)) = Some ?after"
    "cachedAll ex_env_noset [''/m/a.wasm''] (builtCache (Cache ?c)) = Some ?after"
    by (simp_all add: ex_env_def ex_env_noser_def ex_env_noset_def builtCache_def)
  have load: "NewModuleFromFile (ex_env Config_zero) ''/m/b.wasm'' = Inl ''invalid module''"
    "cachedAll (ex_env Config_zero) [''/m/b.wasm''] ?after = None"
    by (simp_all add: ex_env_def)
  have ser: "NewModuleFromFile ex_env_noser ''/m/b.wasm'' = Inr (Module [1])"
    "Serialize ex_env_noser (Module [1]) = Inl ''not serializable''"
    "cachedAll ex_env_noser [''/m/b.wasm''] ?after = None"
    by (simp_all add: ex_env_noser_def ex_env_def)
  have put: "NewModuleFromFile ex_env_noset ''/m/b.wasm'' = Inr (Module [0])"
    "Serialize ex_env_noset (Module [0]) = Inr [0]"
    "CacheSet ex_env_noset ?after ''/m/b.wasm'' [0] = None"
    "cachedAll ex_env_noset [''/m/b.wasm''] ?after = None"
    by (simp_all add: ex_env_noset_def ex_env_def)
  have t: "trace ?d = []"
    by (simp add: NewPlugin_def)
  note a = warmUp_aborts_at_first_failing_module [OF cc c w [OF refl] len pre(1),
      where msg = "''invalid module''"]
  note b = warmUp_aborts_at_first_failing_module [OF cc c w [OF walks(1)] len pre(2),
      where msg = "''not serializable''" and m = "Module [1]"]
  note e = warmUp_aborts_at_first_failing_module [OF cc c w [OF walks(2)] len pre(3),
      where m = "Module [0]" and ser = "[0]"]
  from a load t have "fst (configureCache (ex_env Config_zero) ?d)
      = Error (ErrLoadModule ''/m/b.wasm'' ''invalid module'') \<and>
    loadAttempts (trace (snd (configureCache (ex_env Config_zero) ?d)))
      = [''/m/a.wasm'', ''/m/b.wasm'']"
    by simp
  moreover from b ser t have "fst (configureCache ex_env_noser ?d)
      = Error (ErrSerializeModule ''/m/b.wasm'' ''not serializable'') \<and>
    loadAttempts (trace (snd (configureCache ex_env_noser ?d))) = [''/m/a.wasm'', ''/m/b.wasm'']"
    by simp
  moreover from e put t have "fst (configureCache ex_env_noset ?d)
      = Error (ErrCacheModule ''/m/b.wasm'') \<and>
    loadAttempts (trace (snd (configureCache ex_env_noset ?d))) = [''/m/a.wasm'', ''/m/b.wasm'']"
    by simp
  ultimately show ?thesis by simp
qed

text \<open>
  Claim C6, as stated, fails for \<^verbatim>\<open>SetConfig\<close>: with the cache enabled, a type that is
  not accepted and a size that is not positive, \<^verbatim>\<open>SetConfig\<close> returns the error about
  the size, not the one about the type; it checks the size first.
\<close>

theorem SetConfig_invalid_type_and_size_counterexample:
  "Cache_Enabled (Cache (ex_config 0 ''fifo'' False [] True 600)) \<and>
   \<not> validType (Type (Cache (ex_config 0 ''fifo'' False [] True 600))) \<and>
   fst (SetConfig (ex_env (ex_config 0 ''fifo'' False [] True 600)) NewPlugin ex_base_Config)
     = Error (ErrCacheSize 0) \<and>
   fst (SetConfig (ex_env (ex_config 0 ''fifo'' False [] True 600)) NewPlugin ex_base_Config)
     \<noteq> Error (ErrCacheType ''fifo'')"
  by (simp add: ex_SetConfig_rejects ex_config_fields ex_validType)

text \<open>
  Claim C6, amended. For a configuration whose cache type is not one of lfu, arc, lru and
  simple, \<^verbatim>\<open>configureCache\<close> fails with the error that names the given type and leaves the
  plugin as it was: no cache of another type is built. \<^verbatim>\<open>SetConfig\<close> returns this error
  when the cache is enabled with such a type and the size and the TTL pass its own checks,
  which come first.
\<close>

theorem invalid_cache_type_is_an_error:
  "(\<not> validType (Type (Cache (config d))) \<longrightarrow>
      configureCache env d = (Error (ErrCacheType (Type (Cache (config d)))), d)) \<and>
   (decodedConfig env cfg = Inr c \<and> Cache_Enabled (Cache c) \<and> \<not> validType (Type (Cache c)) \<and>
    0 < Size (Cache c) \<and>
    \<not> (Expiration_Enabled (Expiration (Cache c)) \<and> EntryTTL (Expiration (Cache c)) \<le> 0) \<longrightarrow>
      fst (SetConfig env d' cfg) = Error (ErrCacheType (Type (Cache c))) \<and>
      modulesCache (snd (SetConfig env d' cfg)) = modulesCache d')"
proof -
  have outer: "fst (SetConfig env d' cfg) = Error (ErrCacheType (Type (Cache c))) \<and>
      modulesCache (snd (SetConfig env d' cfg)) = modulesCache d'"
    if dec: "decodedConfig env cfg = Inr c" and en: "Cache_Enabled (Cache c)"
      and bad: "\<not> validType (Type (Cache c))" and sz: "0 < Size (Cache c)"
      and ttl: "\<not> (Expiration_Enabled (Expiration (Cache c)) \<and> EntryTTL (Expiration (Cache c)) \<le> 0)"
  proof -
    from SetConfig_calls_configureCache [OF dec sz ttl en, of d']
    obtain d2 where d2: "SetConfig env d' cfg = configureCache env d2" "config d2 = c"
      "modulesCache d2 = modulesCache d'"
      by blast
    from bad d2 show ?thesis by (simp add: configureCache_invalid)
  qed
  from outer show ?thesis by (auto simp add: configureCache_invalid)
qed

theorem invalid_cache_type_is_an_error_witness:
  "configureCache (ex_env Config_zero) (NewPlugin\<lparr>config := ex_config 5 ''fifo'' False [] True 600\<rparr>)
     = (Error (ErrCacheType ''fifo''), NewPlugin\<lparr>config := ex_config 5 ''fifo'' False [] True 600\<rparr>) \<and>
   fst (SetConfig (ex_env (ex_config 5 ''fifo'' False [] True 600)) NewPlugin ex_base_Config)
     = Error (ErrCacheType ''fifo'') \<and>
   modulesCache (snd (SetConfig (ex_env (ex_config 5 ''fifo'' False [] True 600)) NewPlugin ex_base_Config))
     = None"
proof -
  let ?c = "ex_config 5 ''fifo'' False [] True 600"
  have c: "Cache_Enabled (Cache ?c)" "Size (Cache ?c) = 5" "\<not> validType (Type (Cache ?c))"
    "Type (Cache ?c) = ''fifo''" "EntryTTL (Expiration (Cache ?c)) = 600"
    by (simp_all add: ex_config_fields ex_validType)
  have n: "modulesCache NewPlugin = None"
    by (simp add: NewPlugin_def)
  note a = invalid_cache_type_is_an_error [where env = "ex_env ?c" and d' = NewPlugin
      and cfg = ex_base_Config and c = ?c and d = "NewPlugin\<lparr>config := ?c\<rparr>"]
  note b = invalid_cache_type_is_an_error [where env = "ex_env Config_zero" and d' = NewPlugin
      and cfg = ex_base_Config and c = ?c and d = "NewPlugin\<lparr>config := ?c\<rparr>"]
  from a b c n ex_decoded [of ?c] show ?thesis by simp
qed

text \<open>
  Claim C7. \<^verbatim>\<open>SetConfig\<close> returns an error for every decoded configuration whose cache
  size is not positive, whether the cache is enabled or not, and for every decoded
  configuration with expiration enabled and an entry TTL that is not positive. With
  expiration disabled the TTL is not looked at: decoding to the same configuration with
  any other TTL gives the same result.
\<close>

theorem SetConfig_checks_size_and_TTL:
  "(decodedConfig env cfg = Inr c \<and> Size (Cache c) \<le> 0 \<longrightarrow>
      fst (SetConfig env d cfg) = Error (ErrCacheSize (Size (Cache c)))) \<and>
   (decodedConfig env cfg = Inr c \<and> Expiration_Enabled (Expiration (Cache c)) \<and>
    EntryTTL (Expiration (Cache c)) \<le> 0 \<longrightarrow>
      fst (SetConfig env d cfg)
        = Error (if Size (Cache c) \<le> 0 then ErrCacheSize (Size (Cache c))
                 else ErrEntryTTL (EntryTTL (Expiration (Cache c))))) \<and>
   (PluginConfig cfg \<noteq> [] \<and> MsgPackDecode env (PluginConfig cfg) = Inr c \<and>
    \<not> Expiration_Enabled (Expiration (Cache c)) \<longrightarrow>
      fst (SetConfig
             (env\<lparr>MsgPackDecode :=
                    \<lambda>b. Inr (c\<lparr>Cache := (Cache c)\<lparr>Expiration := (Expiration (Cache c))\<lparr>EntryTTL := ttl\<rparr>\<rparr>\<rparr>)\<rparr>)
             d cfg)
        = fst (SetConfig env d cfg))"
proof -
  have size: "fst (SetConfig env d cfg) = Error (ErrCacheSize (Size (Cache c)))"
    if "decodedConfig env cfg = Inr c" "Size (Cache c) \<le> 0"
    using that by (simp add: SetConfig_def Let_def)
  have entry: "fst (SetConfig env d cfg)
        = Error (if Size (Cache c) \<le> 0 then ErrCacheSize (Size (Cache c))
                 else ErrEntryTTL (EntryTTL (Expiration (Cache c))))"
    if "decodedConfig env cfg = Inr c" "Expiration_Enabled (Expiration (Cache c))"
      "EntryTTL (Expiration (Cache c)) \<le> 0"
    using that by (simp add: SetConfig_def Let_def)
  have same: "fst (SetConfig
             (env\<lparr>MsgPackDecode :=
                    \<lambda>b. Inr (c\<lparr>Cache := (Cache c)\<lparr>Expiration := (Expiration (Cache c))\<lparr>EntryTTL := ttl\<rparr>\<rparr>\<rparr>)\<rparr>)
             d cfg)
        = fst (SetConfig env d cfg)"
    if ne: "PluginConfig cfg \<noteq> []" and dec: "MsgPackDecode env (PluginConfig cfg) = Inr c"
      and off: "\<not> Expiration_Enabled (Expiration (Cache c))"
  proof -
    let ?c' = "c\<lparr>Cache := (Cache c)\<lparr>Expiration := (Expiration (Cache c))\<lparr>EntryTTL := ttl\<rparr>\<rparr>\<rparr>"
    let ?env' = "env\<lparr>MsgPackDecode := \<lambda>b. Inr ?c'\<rparr>"
    from ne dec have d1: "decodedConfig env cfg = Inr c"
      by (simp add: decodedConfig_def)
    from ne have d2: "decodedConfig ?env' cfg = Inr ?c'"
      by (simp add: decodedConfig_def)
    show ?thesis
    proof (cases "0 < Size (Cache c) \<and> Cache_Enabled (Cache c)")
      case False
      with d1 d2 off show ?thesis
        by (auto simp add: SetConfig_def Let_def split: option.splits)
    next
      case True
      from off have ttl: "\<not> (Expiration_Enabled (Expiration (Cache c)) \<and> EntryTTL (Expiration (Cache c)) \<le> 0)"
        and ttl': "\<not> (Expiration_Enabled (Expiration (Cache ?c')) \<and> EntryTTL (Expiration (Cache ?c')) \<le> 0)"
        by simp_all
      from True have sz: "0 < Size (Cache c)" and en: "Cache_Enabled (Cache c)"
        and sz': "0 < Size (Cache ?c')" and en': "Cache_Enabled (Cache ?c')"
        by simp_all
      from SetConfig_calls_configureCache [OF d1 sz ttl en, of d]
      obtain x where x: "SetConfig env d cfg = configureCache env x" "config x = c"
        "modulesCache x = modulesCache d"
        by blast
      from SetConfig_calls_configureCache [OF d2 sz' ttl' en', of d]
      obtain y where y: "SetConfig ?env' d cfg = configureCache ?env' y" "config y = ?c'"
        "modulesCache y = modulesCache d"
        by blast
      have "fst (configureCache ?env' y) = fst (configureCache env x)"
      proof (cases "validType (Type (Cache c))")
        case False
        with x y show ?thesis by (simp add: configureCache_invalid)
      next
        case valid: True
        from off have built: "builtCache (Cache ?c') = builtCache (Cache c)"
          by (simp add: builtCache_def)
        from valid sz x have cx: "configureCache env x
            = warmUp env (Cache c) (x\<lparr>modulesCache := Some (builtCache (Cache c))\<rparr>)"
          by (simp add: configureCache_built)
        from valid sz y built have cy: "configureCache ?env' y
            = warmUp ?env' (Cache ?c') (y\<lparr>modulesCache := Some (builtCache (Cache c))\<rparr>)"
          by (simp add: configureCache_built)
        show ?thesis
          unfolding cx cy by (rule warmUp_fst_cong) simp_all
      qed
      with x y show ?thesis by simp
    qed
  qed
  from size entry same show ?thesis by blast
qed

theorem SetConfig_checks_size_and_TTL_witness:
  "fst (SetConfig (ex_env (ex_config 5 ''lfu'' False [] True 600)) NewPlugin
          \<lparr>PluginConfig = [], AgentConf = None\<rparr>)
     = Error (ErrCacheSize 0) \<and>
   fst (SetConfig (ex_env (ex_config (- 1) ''lfu'' False [] True 600)) NewPlugin ex_base_Config)
     = Error (ErrCacheSize (- 1)) \<and>
   fst (SetConfig (ex_env (ex_config 5 ''lfu'' False [] True 0)) NewPlugin ex_base_Config)
     = Error (ErrEntryTTL 0) \<and>
   fst (SetConfig (ex_env (ex_config 5 ''lfu'' False [] False (- 7))) NewPlugin ex_base_Config)
     = Ok () \<and>
   fst (SetConfig (ex_env (ex_config 5 ''lfu'' False [] False 0)) NewPlugin ex_base_Config)
     = Ok ()"
proof -
  let ?c = "ex_config 5 ''lfu'' False [] False 0"
  have zero: "decodedConfig (ex_env (ex_config 5 ''lfu'' False [] True 600))
      \<lparr>PluginConfig = [], AgentConf = None\<rparr> = Inr Config_zero"
    by (simp add: decodedConfig_def)
  have z: "Size (Cache Config_zero) = 0" "\<not> Cache_Enabled (Cache Config_zero)"
    by (simp_all add: Config_zero_def)
  have f: "Size (Cache (ex_config sz tp pre dir expire ttl)) = sz"
    "Expiration_Enabled (Expiration (Cache (ex_config sz tp pre dir expire ttl))) = expire"
    "EntryTTL (Expiration (Cache (ex_config sz tp pre dir expire ttl))) = ttl"
    for sz tp pre dir expire ttl
    by (simp_all add: ex_config_def)
  have raw: "PluginConfig ex_base_Config \<noteq> []"
    "MsgPackDecode (ex_env ?c) (PluginConfig ex_base_Config) = Inr ?c"
    by (simp_all add: ex_base_Config_def ex_env_def)
  have upd: "(ex_env ?c)\<lparr>MsgPackDecode :=
      \<lambda>b. Inr (?c\<lparr>Cache := (Cache ?c)\<lparr>Expiration := (Expiration (Cache ?c))\<lparr>EntryTTL := - 7\<rparr>\<rparr>\<rparr>)\<rparr>
      = ex_env (ex_config 5 ''lfu'' False [] False (- 7))"
    by (simp add: ex_env_def ex_config_def)
  have ok: "fst (SetConfig (ex_env ?c) NewPlugin ex_base_Config) = Ok ()"
    by (simp add: ex_SetConfig ex_configureCache ex_validType warmUp_def ex_config_fields)
  note a = SetConfig_checks_size_and_TTL [where env = "ex_env (ex_config 5 ''lfu'' False [] True 600)"
      and d = NewPlugin and cfg = "\<lparr>PluginConfig = [], AgentConf = None\<rparr>" and c = Config_zero]
  note b = SetConfig_checks_size_and_TTL [where env = "ex_env (ex_config (- 1) ''lfu'' False [] True 600)"
      and d = NewPlugin and cfg = ex_base_Config and c = "ex_config (- 1) ''lfu'' False [] True 600"]
  note c = SetConfig_checks_size_and_TTL [where env = "ex_env (ex_config 5 ''lfu'' False [] True 0)"
      and d = NewPlugin and cfg = ex_base_Config and c = "ex_config 5 ''lfu'' False [] True 0"]
  note e = SetConfig_checks_size_and_TTL [where env = "ex_env ?c"
      and d = NewPlugin and cfg = ex_base_Config and c = ?c and ttl = "- 7"]
  from a zero z have "fst (SetConfig (ex_env (ex_config 5 ''lfu'' False [] True 600)) NewPlugin
          \<lparr>PluginConfig = [], AgentConf = None\<rparr>) = Error (ErrCacheSize 0)"
    by simp
  moreover from b ex_decoded f
  have "fst (SetConfig (ex_env (ex_config (- 1) ''lfu'' False [] True 600)) NewPlugin ex_base_Config)
     = Error (ErrCacheSize (- 1))"
    by simp
  moreover from c ex_decoded f
  have "fst (SetConfig (ex_env (ex_config 5 ''lfu'' False [] True 0)) NewPlugin ex_base_Config)
     = Error (ErrEntryTTL 0)"
    by simp
  moreover from e raw f upd ok
  have "fst (SetConfig (ex_env (ex_config 5 ''lfu'' False [] False (- 7))) NewPlugin ex_base_Config)
     = Ok ()"
    by simp
  ultimately show ?thesis using ok by simp
qed

text \<open>
  Claim C9. \<^verbatim>\<open>SetConfig\<close> stores the decoded configuration in the plugin before it
  checks it: whenever it returns an error for a configuration that decoded (a size or TTL
  that is not positive, a cache type that is not accepted, a warm-up that fails), the
  plugin's configuration afterwards is the rejected one, not the one it had.
\<close>

theorem SetConfig_keeps_rejected_config:
  assumes "decodedConfig env cfg = Inr c" and "fst (SetConfig env d cfg) = Error e"
  shows "config (snd (SetConfig env d cfg)) = c"
  using assms(1) by (rule SetConfig_config)

theorem SetConfig_keeps_rejected_config_witness:
  "config NewPlugin = Config_zero \<and>
   fst (SetConfig (ex_env (ex_config 0 ''lfu'' False [] True 600)) NewPlugin ex_base_Config)
     = Error (ErrCacheSize 0) \<and>
   config (snd (SetConfig (ex_env (ex_config 0 ''lfu'' False [] True 600)) NewPlugin ex_base_Config))
     = ex_config 0 ''lfu'' False [] True 600 \<and>
   fst (SetConfig (ex_env (ex_config 5 ''lfu'' False [] True 0)) NewPlugin ex_base_Config)
     = Error (ErrEntryTTL 0) \<and>
   config (snd (SetConfig (ex_env (ex_config 5 ''lfu'' False [] True 0)) NewPlugin ex_base_Config))
     = ex_config 5 ''lfu'' False [] True 0 \<and>
   fst (SetConfig (ex_env (ex_config 5 ''fifo'' False [] True 600)) NewPlugin ex_base_Config)
     = Error (ErrCacheType ''fifo'') \<and>
   config (snd (SetConfig (ex_env (ex_config 5 ''fifo'' False [] True 600)) NewPlugin ex_base_Config))
     = ex_config 5 ''fifo'' False [] True 600 \<and>
   fst (SetConfig (ex_env (ex_config 2 ''lfu'' True ''/m'' True 600)) NewPlugin ex_base_Config)
     = Error (ErrPreCacheCount 2 3) \<and>
   config (snd (SetConfig (ex_env (ex_config 2 ''lfu'' True ''/m'' True 600)) NewPlugin ex_base_Config))
     = ex_config 2 ''lfu'' True ''/m'' True 600"
proof -
  have size: "fst (SetConfig (ex_env (ex_config 0 ''lfu'' False [] True 600)) NewPlugin ex_base_Config)
     = Error (ErrCacheSize 0)"
    by (simp add: ex_SetConfig_rejects)
  have entry: "fst (SetConfig (ex_env (ex_config 5 ''lfu'' False [] True 0)) NewPlugin ex_base_Config)
     = Error (ErrEntryTTL 0)"
    by (simp add: ex_SetConfig_rejects)
  have type: "fst (SetConfig (ex_env (ex_config 5 ''fifo'' False [] True 600)) NewPlugin ex_base_Config)
     = Error (ErrCacheType ''fifo'')"
    by (simp add: ex_SetConfig ex_configureCache ex_validType)
  have count: "fst (SetConfig (ex_env (ex_config 2 ''lfu'' True ''/m'' True 600)) NewPlugin ex_base_Config)
     = Error (ErrPreCacheCount 2 3)"
    by (simp add: ex_SetConfig ex_configureCache ex_validType warmUp_def ex_config_fields
        ex_WalkEntries)
  note a = SetConfig_keeps_rejected_config [OF ex_decoded size]
  note b = SetConfig_keeps_rejected_config [OF ex_decoded entry]
  note c = SetConfig_keeps_rejected_config [OF ex_decoded type]
  note e = SetConfig_keeps_rejected_config [OF ex_decoded count]
  have "config NewPlugin = Config_zero"
    by (simp add: NewPlugin_def)
  with a b c e size entry type count show ?thesis by simp
qed

text \<open>
  Claim C10. The function that \<^verbatim>\<open>configureCache\<close> gives to the directory walk returns
  nil for every entry that has a \<^verbatim>\<open>FileInfo\<close>, whatever its error argument, which it
  does not read; so neither \<^verbatim>\<open>configureCache\<close> nor \<^verbatim>\<open>SetConfig\<close> ever returns the
  error "unable to get WASM modules for pre-cache". For an entry with a nil \<^verbatim>\<open>FileInfo\<close>
  it dereferences the nil value, which is a panic, not an error.
\<close>

theorem visitor_never_returns_an_error:
  "(walk_info entry = Some info \<longrightarrow> (\<exists>modulesPath'. visitor modulesPath entry = Ok (modulesPath', None))) \<and>
   visitor modulesPath (entry\<lparr>walk_err := err\<rparr>) = visitor modulesPath entry \<and>
   (walk_info entry = None \<longrightarrow> visitor modulesPath entry = Panic NilFileInfo) \<and>
   (\<forall>r. Walk entries visitor modulesPath = Ok r \<longrightarrow> snd r = None) \<and>
   fst (configureCache env d) \<noteq> Error (ErrWalk dir msg) \<and>
   fst (SetConfig env d cfg) \<noteq> Error (ErrWalk dir msg)"
proof -
  have "fst (SetConfig env d cfg) \<noteq> Error (ErrWalk dir msg)"
    by (simp add: SetConfig_def Let_def configureCache_not_ErrWalk split: sum.splits option.splits)
  moreover have "\<forall>r. Walk entries visitor modulesPath = Ok r \<longrightarrow> snd r = None"
    using Walk_visitor_cases [of entries modulesPath] by auto
  moreover have "visitor modulesPath (entry\<lparr>walk_err := err\<rparr>) = visitor modulesPath entry"
    by (simp add: visitor_def split: option.splits)
  moreover have "walk_info entry = Some info \<longrightarrow>
      (\<exists>modulesPath'. visitor modulesPath entry = Ok (modulesPath', None))"
    by (simp add: visitor_def)
  moreover have "walk_info entry = None \<longrightarrow> visitor modulesPath entry = Panic NilFileInfo"
    by (simp add: visitor_def)
  ultimately show ?thesis
    using configureCache_not_ErrWalk [of env d dir msg] by blast
qed

theorem visitor_never_returns_an_error_witness:
  "visitor [''/m/a.wasm'']
     \<lparr>walk_path = ''/m/b.wasm'', walk_info = Some \<lparr>Name = ''b.wasm'', IsDir = False\<rparr>,
      walk_err = Some ''permission denied''\<rparr>
     = Ok ([''/m/a.wasm'', ''/m/b.wasm''], None) \<and>
   visitor [] \<lparr>walk_path = ''/none'', walk_info = None, walk_err = Some ''no such file or directory''\<rparr>
     = Panic NilFileInfo \<and>
   Walk ex_entries visitor [] = Ok ([''/m/a.wasm'', ''/m/b.wasm'', ''/m/c.wasm''], None) \<and>
   fst (SetConfig (ex_env (ex_config 5 ''lfu'' True ''/none'' True 600)) NewPlugin ex_base_Config)
     = Panic NilFileInfo"
proof -
  let ?e = "\<lparr>walk_path = ''/m/b.wasm'', walk_info = Some \<lparr>Name = ''b.wasm'', IsDir = False\<rparr>,
      walk_err = Some ''permission denied''\<rparr>"
  let ?n = "\<lparr>walk_path = ''/none'', walk_info = None, walk_err = Some ''no such file or directory''\<rparr>"
  have i: "walk_info ?e = Some \<lparr>Name = ''b.wasm'', IsDir = False\<rparr>" "walk_info ?n = None"
    by simp_all
  have v: "visitor [''/m/a.wasm''] ?e = Ok ([''/m/a.wasm'', ''/m/b.wasm''], None)"
    by (simp add: visitor_def HasSuffix_def)
  have p: "fst (SetConfig (ex_env (ex_config 5 ''lfu'' True ''/none'' True 600)) NewPlugin ex_base_Config)
     = Panic NilFileInfo"
    by (simp add: ex_SetConfig ex_configureCache ex_validType warmUp_def ex_config_fields
        ex_WalkEntries)
  note a = visitor_never_returns_an_error [where entry = ?e and modulesPath = "[''/m/a.wasm'']"
      and info = "\<lparr>Name = ''b.wasm'', IsDir = False\<rparr>"]
  note b = visitor_never_returns_an_error [where entry = ?n and modulesPath = "[]"
      and entries = ex_entries]
  from a b i v p ex_Walk show ?thesis by simp
qed

end
